theory Spec2Isabelle
  imports Complex_Main "HOL-Library.AList" "HOL-Library.Log_Nat"
begin

section \<open>JavaScript numbers\<close>

text \<open>
  The page computes with JavaScript numbers, the values of IEEE 754 binary64. A finite
  value is given by the rational it denotes; the sign of zero is not tracked. Comparisons
  are exact. Addition, subtraction, multiplication and division compute the exact result
  and round it to the nearest binary64 value, ties to the even significand, overflowing
  to an infinity (\<open>round64\<close>). The special values follow IEEE 754: \<open>NaN\<close> is absorbing,
  compares false with everything, and \<open>Infinity - Infinity\<close> is \<open>NaN\<close>.
\<close>

datatype number = Fin rat | PInf | NInf | NaN

fun isFinite :: "number \<Rightarrow> bool" where
  "isFinite (Fin _) = True"
| "isFinite _ = False"

fun js_lt :: "number \<Rightarrow> number \<Rightarrow> bool" where
  "js_lt NaN _ = False"
| "js_lt _ NaN = False"
| "js_lt (Fin a) (Fin b) = (a < b)"
| "js_lt NInf NInf = False"
| "js_lt NInf _ = True"
| "js_lt _ NInf = False"
| "js_lt PInf _ = False"
| "js_lt _ PInf = True"

fun js_le :: "number \<Rightarrow> number \<Rightarrow> bool" where
  "js_le NaN _ = False"
| "js_le _ NaN = False"
| "js_le (Fin a) (Fin b) = (a \<le> b)"
| "js_le NInf _ = True"
| "js_le _ PInf = True"
| "js_le PInf _ = False"
| "js_le _ NInf = False"

definition js_gt :: "number \<Rightarrow> number \<Rightarrow> bool" where
  "js_gt a b = js_lt b a"

fun js_neg :: "number \<Rightarrow> number" where
  "js_neg (Fin a) = Fin (- a)"
| "js_neg PInf = NInf"
| "js_neg NInf = PInf"
| "js_neg NaN = NaN"

text \<open>The sign of a number that is not \<open>NaN\<close>; zero counts as positive zero.\<close>

fun negative :: "number \<Rightarrow> bool" where
  "negative (Fin a) = (a < 0)"
| "negative NInf = True"
| "negative _ = False"

definition signed_inf :: "bool \<Rightarrow> number" where
  "signed_inf neg = (if neg then NInf else PInf)"

text \<open>
  Rounding to binary64. For \<open>m > 0\<close>, \<open>ilog2 m\<close> is the exponent \<open>e\<close> with
  \<open>2 ^ e \<le> m < 2 ^ (e + 1)\<close>. The binary64 values of that binade are the multiples of
  \<open>2 ^ (e - 52)\<close>, and below the normal range the multiples of \<open>2 ^ (- 1074)\<close>. The multiple
  nearest to \<open>m\<close> is taken, the even one of two equally near; a result of \<open>2 ^ 1024\<close> or more
  is an infinity.
\<close>

definition ilog2 :: "rat \<Rightarrow> int" where
  "ilog2 m = (if 1 \<le> m then bitlen \<lfloor>m\<rfloor> - 1 else - bitlen (\<lceil>1 / m\<rceil> - 1))"

definition round_half_even :: "rat \<Rightarrow> int" where
  "round_half_even x =
     (let f = \<lfloor>x\<rfloor>; d = x - of_int f
      in if d < 1 / 2 then f else if 1 / 2 < d then f + 1 else if even f then f else f + 1)"

definition round_at :: "int \<Rightarrow> rat \<Rightarrow> bool \<Rightarrow> number" where
  "round_at e m neg =
     (let u = 2 powi (max e (- 1022) - 52);
          r = of_int (round_half_even (m / u)) * u
      in if 2 ^ 1024 \<le> r then signed_inf neg else Fin (if neg then - r else r))"

definition round64 :: "rat \<Rightarrow> number" where
  "round64 q = (if q = 0 then Fin 0 else round_at (ilog2 \<bar>q\<bar>) \<bar>q\<bar> (q < 0))"

fun js_add :: "number \<Rightarrow> number \<Rightarrow> number" where
  "js_add NaN _ = NaN"
| "js_add _ NaN = NaN"
| "js_add (Fin a) (Fin b) = round64 (a + b)"
| "js_add PInf NInf = NaN"
| "js_add NInf PInf = NaN"
| "js_add PInf _ = PInf"
| "js_add NInf _ = NInf"
| "js_add _ PInf = PInf"
| "js_add _ NInf = NInf"

definition js_sub :: "number \<Rightarrow> number \<Rightarrow> number" where
  "js_sub a b = js_add a (js_neg b)"

fun js_mul :: "number \<Rightarrow> number \<Rightarrow> number" where
  "js_mul NaN _ = NaN"
| "js_mul _ NaN = NaN"
| "js_mul (Fin a) (Fin b) = round64 (a * b)"
| "js_mul (Fin a) y = (if a = 0 then NaN else signed_inf (negative (Fin a) \<noteq> negative y))"
| "js_mul x (Fin b) = (if b = 0 then NaN else signed_inf (negative x \<noteq> negative (Fin b)))"
| "js_mul x y = signed_inf (negative x \<noteq> negative y)"

fun js_div :: "number \<Rightarrow> number \<Rightarrow> number" where
  "js_div NaN _ = NaN"
| "js_div _ NaN = NaN"
| "js_div (Fin a) (Fin b) =
     (if b \<noteq> 0 then round64 (a / b)
      else if a = 0 then NaN
      else signed_inf (a < 0))"
| "js_div (Fin a) _ = Fin 0"
| "js_div x (Fin b) = signed_inf (negative x \<noteq> negative (Fin b))"
| "js_div _ _ = NaN"

text \<open>Truthiness of a number: \<open>0\<close> and \<open>NaN\<close> are falsy.\<close>

definition truthy_num :: "number \<Rightarrow> bool" where
  "truthy_num x = (x \<noteq> Fin 0 \<and> x \<noteq> NaN)"

text \<open>\<open>Math.max(a, b)\<close>: \<open>NaN\<close> if either argument is \<open>NaN\<close>.\<close>

definition Math_max :: "number \<Rightarrow> number \<Rightarrow> number" where
  "Math_max a b = (if a = NaN \<or> b = NaN then NaN else if js_lt a b then b else a)"

text \<open>
  \<open>Math.round\<close>: the nearest integer, halves towards \<open>+Infinity\<close>. No rounding to binary64
  is needed: a binary64 value of magnitude \<open>2 ^ 52\<close> or more is an integer, and every integer
  below that is a binary64 value.
\<close>

fun Math_round :: "number \<Rightarrow> number" where
  "Math_round (Fin a) = Fin (of_int \<lfloor>a + 1 / 2\<rfloor>)"
| "Math_round x = x"

section \<open>Currency conversion\<close>

text \<open>
  \<^verbatim>\<open>function krwToUsd(krw:number, rate:number)\<close>. Both arguments are numbers,
  on which \<open>Number(...)\<close> is the identity.
\<close>

definition krwToUsd :: "number \<Rightarrow> number \<Rightarrow> number" where
  "krwToUsd krw rate =
     (let normalizedRate = rate in
      if \<not> isFinite normalizedRate \<or> js_le normalizedRate (Fin 0) then Fin 0
      else js_div krw normalizedRate)"

section \<open>JavaScript values\<close>

text \<open>
  Values that \<open>JSON.parse\<close> produces, plus \<open>undefined\<close>. An object is the list of its own
  properties in creation order. The record fields of the page that TypeScript declares as
  \<open>string\<close> hold such values as well: the import routine copies whatever the document
  contains.
\<close>

datatype jsval =
    Undefined
  | Null
  | Bool bool
  | Num number
  | Str string
  | Arr "jsval list"
  | Obj "(string \<times> jsval) list"

fun truthy :: "jsval \<Rightarrow> bool" where
  "truthy Undefined = False"
| "truthy Null = False"
| "truthy (Bool b) = b"
| "truthy (Num x) = truthy_num x"
| "truthy (Str s) = (s \<noteq> [])"
| "truthy (Arr _) = True"
| "truthy (Obj _) = True"

text \<open>\<open>a || b\<close>\<close>

definition js_or :: "jsval \<Rightarrow> jsval \<Rightarrow> jsval" where
  "js_or a b = (if truthy a then a else b)"

fun nullish :: "jsval \<Rightarrow> bool" where
  "nullish Undefined = True"
| "nullish Null = True"
| "nullish _ = False"

fun isArray :: "jsval \<Rightarrow> bool" where
  "isArray (Arr _) = True"
| "isArray _ = False"

fun elems :: "jsval \<Rightarrow> jsval list" where
  "elems (Arr xs) = xs"
| "elems _ = []"

text \<open>
  \<open>v.k\<close> on a value that is neither \<open>null\<close> nor \<open>undefined\<close> (on those the read throws a
  \<open>TypeError\<close>, which the callers below check first), for a key \<open>k\<close> that no built-in
  prototype defines: all keys read by the page are of this kind (\<open>income\<close>, \<open>expenses\<close>,
  \<open>categories\<close>, \<open>id\<close>, \<open>date\<close>, \<open>desc\<close>, \<open>amount\<close>, \<open>notes\<close>, \<open>category\<close>, \<open>error\<close>,
  \<open>rates\<close>, \<open>USD\<close>). When a JSON text repeats a key, the last occurrence wins.
\<close>

fun get_prop :: "jsval \<Rightarrow> string \<Rightarrow> jsval" where
  "get_prop (Obj kvs) k = (case map_of (rev kvs) k of None \<Rightarrow> Undefined | Some v \<Rightarrow> v)"
| "get_prop _ k = Undefined"

text \<open>
  What the JavaScript engine and its library provide and the model does not spell out:
  the two conversions between strings and numbers, \<open>String.prototype.trim\<close> (which strips
  the Unicode white space and line terminators), and the text that
  \<open>Function.prototype.toString\<close> gives for a built-in function, here the one that a
  plain object inherits under the given property name. They are parameters of the model.
\<close>

record builtins =
  StringToNumber :: "string \<Rightarrow> number"
  NumberToString :: "number \<Rightarrow> string"
  trim :: "string \<Rightarrow> string"
  NativeToString :: "string \<Rightarrow> string"

datatype exn = SyntaxError string | Error string | TypeError string

fun message :: "exn \<Rightarrow> string" where
  "message (SyntaxError m) = m"
| "message (Error m) = m"
| "message (TypeError m) = m"

text \<open>The text of the \<open>TypeError\<close> of a property read on \<open>null\<close> or \<open>undefined\<close> (V8's wording).\<close>

definition read_of_nullish :: "jsval \<Rightarrow> string \<Rightarrow> exn" where
  "read_of_nullish v k =
     TypeError (''Cannot read properties of '' @ (if v = Null then ''null'' else ''undefined'')
       @ '' (reading '' @ [CHR 0x27] @ k @ [CHR 0x27] @ '')'')"

text \<open>
  The \<open>TypeError\<close> of a conversion of an object to a primitive value when neither
  \<open>valueOf\<close> nor \<open>toString\<close> yields one (V8's wording).
\<close>

definition no_primitive :: exn where
  "no_primitive = TypeError ''Cannot convert object to primitive value''"

fun join :: "string list \<Rightarrow> string" where
  "join [] = []"
| "join [s] = s"
| "join (s # ss) = s @ '','' @ join ss"

text \<open>
  \<open>String(v)\<close>. An array is converted by \<open>Array.prototype.join\<close>, which takes \<open>null\<close> and
  \<open>undefined\<close> elements as empty strings and converts the others. A plain object inherits
  \<open>valueOf\<close>, which returns the object itself, and \<open>toString\<close>, which returns
  \<open>[object Object]\<close>; an own property \<open>toString\<close> of a parsed document is never a function
  and hides the inherited one, and then the conversion throws.
\<close>

fun ToString :: "builtins \<Rightarrow> jsval \<Rightarrow> exn + string"
  and ToStrings :: "builtins \<Rightarrow> jsval list \<Rightarrow> exn + string list" where
  "ToString env Undefined = Inr ''undefined''"
| "ToString env Null = Inr ''null''"
| "ToString env (Bool b) = Inr (if b then ''true'' else ''false'')"
| "ToString env (Num x) = Inr (NumberToString env x)"
| "ToString env (Str s) = Inr s"
| "ToString env (Arr xs) =
     (case ToStrings env xs of Inl e \<Rightarrow> Inl e | Inr ss \<Rightarrow> Inr (join ss))"
| "ToString env (Obj kvs) =
     (if ''toString'' \<in> set (map fst kvs) then Inl no_primitive else Inr ''[object Object]'')"
| "ToStrings env [] = Inr []"
| "ToStrings env (x # xs) =
     (case (if nullish x then Inr [] else ToString env x) of
        Inl e \<Rightarrow> Inl e
      | Inr s \<Rightarrow> (case ToStrings env xs of Inl e \<Rightarrow> Inl e | Inr ss \<Rightarrow> Inr (s # ss)))"

text \<open>\<open>Number(v)\<close>; an array or an object is converted to a string first.\<close>

fun ToNumber :: "builtins \<Rightarrow> jsval \<Rightarrow> exn + number" where
  "ToNumber env Undefined = Inr NaN"
| "ToNumber env Null = Inr (Fin 0)"
| "ToNumber env (Bool b) = Inr (Fin (if b then 1 else 0))"
| "ToNumber env (Num x) = Inr x"
| "ToNumber env (Str s) = Inr (StringToNumber env s)"
| "ToNumber env v =
     (case ToString env v of Inl e \<Rightarrow> Inl e | Inr s \<Rightarrow> Inr (StringToNumber env s))"

text \<open>
  \<open>JSON.parse(JSON.stringify(v))\<close>: a property whose value is \<open>undefined\<close> is left out, an
  \<open>undefined\<close> array element and a non-finite number become \<open>null\<close>.
\<close>

fun json_roundtrip :: "jsval \<Rightarrow> jsval" where
  "json_roundtrip (Num x) = (if isFinite x then Num x else Null)"
| "json_roundtrip (Arr xs) =
     Arr (map (\<lambda>x. if x = Undefined then Null else json_roundtrip x) xs)"
| "json_roundtrip (Obj kvs) =
     Obj (map (\<lambda>kv. (fst kv, json_roundtrip (snd kv)))
            (filter (\<lambda>kv. snd kv \<noteq> Undefined) kvs))"
| "json_roundtrip v = v"

text \<open>
  \<open>SameValueZero\<close>, the equality of \<open>Set\<close>: primitives are compared by value and \<open>NaN\<close>
  equals itself; objects and arrays are compared by identity, and two of them met at
  different places of a parsed document are never the same object.
\<close>

fun primitive :: "jsval \<Rightarrow> bool" where
  "primitive (Arr _) = False"
| "primitive (Obj _) = False"
| "primitive _ = True"

definition SameValueZero :: "jsval \<Rightarrow> jsval \<Rightarrow> bool" where
  "SameValueZero a b = (primitive a \<and> a = b)"

text \<open>\<open>Array.from(new Set(xs))\<close>: the elements in order of first occurrence.\<close>

definition set_add :: "jsval \<Rightarrow> jsval list \<Rightarrow> jsval list" where
  "set_add x acc = (if list_ex (\<lambda>y. SameValueZero y x) acc then acc else acc @ [x])"

definition from_Set :: "jsval list \<Rightarrow> jsval list" where
  "from_Set xs = fold set_add xs []"

section \<open>The client ledger\<close>

text \<open>
  \<^verbatim>\<open>type IncomeRow = { id; date; desc; amount; notes? }\<close> and
  \<^verbatim>\<open>type ExpenseRow = { id; date; category; desc; amount; notes? }\<close>.
  The amount of a row in the page state is always a number (every assignment goes through
  \<open>Number\<close>, \<open>Math.round\<close> or \<open>Math.max\<close>).
\<close>

record row =
  row_id :: jsval
  date :: jsval
  desc :: jsval
  amount :: number
  row_notes :: jsval

record expense_row = row +
  category :: jsval

record form =
  form_date :: string
  form_desc :: string
  form_amount :: string
  form_notes :: string

record expense_form = form +
  form_category :: string

record page =
  rate :: number
  income :: "row list"
  expenses :: "expense_row list"
  categories :: "jsval list"
  incomeForm :: form
  expenseForm :: expense_form

definition DEFAULT_CATEGORIES :: "string list" where
  "DEFAULT_CATEGORIES =
     [''Room and Utility'', ''Daily Expense'', ''Borrow Others'', ''Food & Drinks'',
      ''Transportation'', ''Entertainment'', ''Shopping'', ''Other'']"

datatype ToastType = info | success | error

text \<open>\<open>toast(message, type, timeout)\<close>\<close>

datatype toast = Toast string ToastType nat

subsection \<open>Aggregation\<close>

text \<open>\<open>Number(x || 0)\<close> on a number \<open>x\<close>\<close>

definition num_or_0 :: "number \<Rightarrow> number" where
  "num_or_0 x = (if truthy_num x then x else Fin 0)"

text \<open>\<open>rows.reduce((s, r) => s + Number(r.amount || 0), 0)\<close>\<close>

definition sum_amounts :: "('a row_scheme) list \<Rightarrow> number" where
  "sum_amounts rows = fold (\<lambda>r s. js_add s (num_or_0 (amount r))) rows (Fin 0)"

record totals =
  incomeKRW :: number
  expenseKRW :: number
  remainingKRW :: number
  incomeUSD :: number
  expenseUSD :: number
  remainingUSD :: number

definition totals :: "page \<Rightarrow> totals" where
  "totals p =
     (let incomeKRW = sum_amounts (income p);
          expenseKRW = sum_amounts (expenses p);
          remainingKRW = js_sub incomeKRW expenseKRW
      in \<lparr> incomeKRW = incomeKRW, expenseKRW = expenseKRW, remainingKRW = remainingKRW,
           incomeUSD = krwToUsd incomeKRW (rate p),
           expenseUSD = krwToUsd expenseKRW (rate p),
           remainingUSD = krwToUsd remainingKRW (rate p) \<rparr>)"

text \<open>
  \<^verbatim>\<open>const byCat: Record<string, number> = {}\<close> is a plain object. Its own properties
  are an association list in order of creation; what the loop stores in one is a number,
  or a string when \<open>+\<close> concatenated. A plain object also inherits the properties of
  \<open>Object.prototype\<close>: built-in functions, and the accessor \<open>__proto__\<close>, whose getter
  returns the prototype object and whose setter ignores a value that is neither an object
  nor \<open>null\<close>.
\<close>

datatype cell = Number number | Text string

type_synonym record_of_number = "(string \<times> cell) list"

definition Object_prototype :: "string list" where
  "Object_prototype =
     [''constructor'', ''__defineGetter__'', ''__defineSetter__'', ''hasOwnProperty'',
      ''__lookupGetter__'', ''__lookupSetter__'', ''isPrototypeOf'', ''propertyIsEnumerable'',
      ''toString'', ''valueOf'', ''__proto__'', ''toLocaleString'']"

text \<open>\<open>byCat[k]\<close>: the own property if there is one, else the inherited one, else \<open>undefined\<close>.\<close>

datatype property = Own cell | Inherited string | Absent

definition get_cell :: "record_of_number \<Rightarrow> string \<Rightarrow> property" where
  "get_cell byCat k =
     (case map_of byCat k of
        Some v \<Rightarrow> Own v
      | None \<Rightarrow> if k \<in> set Object_prototype then Inherited k else Absent)"

text \<open>\<open>byCat[k] = v\<close> for a number or a string \<open>v\<close>\<close>

definition set_cell :: "record_of_number \<Rightarrow> string \<Rightarrow> cell \<Rightarrow> record_of_number" where
  "set_cell byCat k v = (if k = ''__proto__'' then byCat else AList.update k v byCat)"

text \<open>
  The string that an inherited value converts to: \<open>[object Object]\<close> for the prototype
  object, the text of the function otherwise.
\<close>

definition inherited_text :: "builtins \<Rightarrow> string \<Rightarrow> string" where
  "inherited_text env k =
     (if k = ''__proto__'' then ''[object Object]'' else NativeToString env k)"

text \<open>
  \<open>(byCat[k] || 0) + n\<close> for a number \<open>n\<close>: the sum of two numbers, or a concatenation when
  the left operand is a string, a function or an object.
\<close>

definition or_0_plus :: "builtins \<Rightarrow> property \<Rightarrow> number \<Rightarrow> cell" where
  "or_0_plus env v n =
     (case v of
        Absent \<Rightarrow> Number (js_add (Fin 0) n)
      | Own (Number x) \<Rightarrow> Number (js_add (num_or_0 x) n)
      | Own (Text s) \<Rightarrow>
          if s = [] then Number (js_add (Fin 0) n) else Text (s @ NumberToString env n)
      | Inherited k \<Rightarrow> Text (inherited_text env k @ NumberToString env n))"

text \<open>
  \<^verbatim>\<open>byCat[e.category] = (byCat[e.category] || 0) + Number(e.amount || 0)\<close>. The category
  is converted to a property name, which throws for an object that cannot be converted.
\<close>

definition breakdown_step ::
  "builtins \<Rightarrow> expense_row \<Rightarrow> record_of_number \<Rightarrow> exn + record_of_number" where
  "breakdown_step env e byCat =
     (case ToString env (category e) of
        Inl err \<Rightarrow> Inl err
      | Inr k \<Rightarrow> Inr (set_cell byCat k (or_0_plus env (get_cell byCat k) (num_or_0 (amount e)))))"

fun breakdown_from ::
  "builtins \<Rightarrow> expense_row list \<Rightarrow> record_of_number \<Rightarrow> exn + record_of_number" where
  "breakdown_from env [] byCat = Inr byCat"
| "breakdown_from env (e # es) byCat =
     (case breakdown_step env e byCat of
        Inl err \<Rightarrow> Inl err
      | Inr byCat' \<Rightarrow> breakdown_from env es byCat')"

definition breakdown :: "builtins \<Rightarrow> expense_row list \<Rightarrow> exn + record_of_number" where
  "breakdown env es = breakdown_from env es []"

text \<open>
  \<open>v || 0\<close> as a number, for \<open>v = byCat[k]\<close>: the operand of the division below, and the
  amount that the table shows for the category.
\<close>

definition cell_number :: "builtins \<Rightarrow> property \<Rightarrow> number" where
  "cell_number env v =
     (case v of
        Absent \<Rightarrow> Fin 0
      | Own (Number x) \<Rightarrow> num_or_0 x
      | Own (Text s) \<Rightarrow> if s = [] then Fin 0 else StringToNumber env s
      | Inherited k \<Rightarrow> StringToNumber env (inherited_text env k))"

text \<open>
  The cell of the breakdown table for \<open>cat\<close>:
  \<^verbatim>\<open>const amt = breakdown[cat] || 0; const pct = (amt / (totals.expenseKRW || 1)) * 100\<close>.
\<close>

definition pct :: "builtins \<Rightarrow> expense_row list \<Rightarrow> jsval \<Rightarrow> exn + number" where
  "pct env es cat =
     (case breakdown env es of
        Inl err \<Rightarrow> Inl err
      | Inr byCat \<Rightarrow>
          (case ToString env cat of
             Inl err \<Rightarrow> Inl err
           | Inr k \<Rightarrow>
               let amt = cell_number env (get_cell byCat k);
                   total = sum_amounts es
               in Inr (js_mul (js_div amt (if truthy_num total then total else Fin 1))
                         (Fin 100))))"

subsection \<open>Adding a record\<close>

text \<open>
  What \<open>fetch\<close> and the reading of the reply came to: \<open>fetch\<close> rejected with an error of the
  given message, or a response arrived with its \<open>ok\<close> flag and, when its body is JSON, the
  parsed body.
\<close>

datatype server_reply = FetchThrows string | Response bool "jsval option"

text \<open>
  The message of the error thrown on a response that is not \<open>ok\<close>:
  \<^verbatim>\<open>const errorData = await res.json().catch(() => ({}));
  throw new Error(errorData.error || fallback)\<close>. When the conversion of the message to a
  string throws, the error caught is that \<open>TypeError\<close>.
\<close>

definition failure_message :: "builtins \<Rightarrow> string \<Rightarrow> jsval option \<Rightarrow> string" where
  "failure_message env fallback body =
     (case body of
        None \<Rightarrow> fallback
      | Some errorData \<Rightarrow>
          if nullish errorData then message (read_of_nullish errorData ''error'')
          else (case ToString env (js_or (get_prop errorData ''error'') (Str fallback)) of
                  Inl err \<Rightarrow> message err
                | Inr m \<Rightarrow> m))"

text \<open>\<open>errors.join(", ")\<close>\<close>

fun join_errors :: "string list \<Rightarrow> string" where
  "join_errors [] = []"
| "join_errors [s] = s"
| "join_errors (s # ss) = s @ '', '' @ join_errors ss"

text \<open>
  The outcome of a submit handler: the page state afterwards, the toasts shown, and the
  body of the POST request when one was sent.
\<close>

record outcome =
  page_after :: page
  toasts :: "toast list"
  request :: "jsval option"

definition income_row_json :: "row \<Rightarrow> jsval" where
  "income_row_json r =
     Obj [(''id'', row_id r), (''date'', date r), (''desc'', desc r),
          (''amount'', Num (amount r)), (''notes'', row_notes r)]"

definition expense_row_json :: "expense_row \<Rightarrow> jsval" where
  "expense_row_json r =
     Obj [(''id'', row_id r), (''date'', date r), (''category'', category r), (''desc'', desc r),
          (''amount'', Num (amount r)), (''notes'', row_notes r)]"

text \<open>
  \<open>onAddIncome\<close>. \<open>new_id\<close> is what this call of \<open>uid()\<close> returns, \<open>reply\<close> what the POST to
  \<open>/api/income\<close> comes to if it is sent.
\<close>

definition onAddIncome :: "builtins \<Rightarrow> string \<Rightarrow> server_reply \<Rightarrow> page \<Rightarrow> outcome" where
  "onAddIncome env new_id reply p =
     (let f = incomeForm p;
          date = trim env (form_date f);
          desc = trim env (form_desc f);
          amount = Math_round (StringToNumber env (form_amount f));
          errors = (if date = [] then [''Date''] else [])
                 @ (if \<not> js_gt amount (Fin 0) then [''Amount''] else [])
      in if length errors > 0 then
           \<lparr> page_after = p,
             toasts = [Toast (''Please fill in: '' @ join_errors errors) error 3500],
             request = None \<rparr>
         else
           let row = \<lparr> row_id = Str new_id, date = Str date,
                       desc = Str (if desc = [] then ''Income'' else desc),
                       amount = amount, row_notes = Str (trim env (form_notes f)) \<rparr>;
               sent = Some (json_roundtrip (income_row_json row))
           in (case reply of
                 FetchThrows m \<Rightarrow>
                   \<lparr> page_after = p,
                     toasts = [Toast (if m = [] then ''Failed to save income to database.'' else m)
                                 error 4000],
                     request = sent \<rparr>
               | Response ok body \<Rightarrow>
                   if \<not> ok then
                     let m = failure_message env ''Failed to save income'' body
                     in \<lparr> page_after = p,
                          toasts = [Toast (if m = [] then ''Failed to save income to database.''
                                           else m) error 4000],
                          request = sent \<rparr>
                   else
                     \<lparr> page_after = p\<lparr> income := income p @ [row],
                              incomeForm := \<lparr> form_date = form_date f, form_desc = [],
                                              form_amount = [], form_notes = [] \<rparr> \<rparr>,
                       toasts = [Toast ''Income added'' success 2500],
                       request = sent \<rparr>))"

text \<open>\<open>onAddExpense\<close>, in the same way, with the POST to \<open>/api/expenses\<close>.\<close>

definition onAddExpense :: "builtins \<Rightarrow> string \<Rightarrow> server_reply \<Rightarrow> page \<Rightarrow> outcome" where
  "onAddExpense env new_id reply p =
     (let f = expenseForm p;
          date = trim env (form_date f);
          category = trim env (form_category f);
          desc = trim env (form_desc f);
          amount = Math_round (StringToNumber env (form_amount f));
          errors = (if date = [] then [''Date''] else [])
                 @ (if \<not> js_gt amount (Fin 0) then [''Amount''] else [])
      in if length errors > 0 then
           \<lparr> page_after = p,
             toasts = [Toast (''Please fill in: '' @ join_errors errors) error 3500],
             request = None \<rparr>
         else
           let row = \<lparr> row_id = Str new_id, date = Str date,
                       desc = Str (if desc = [] then ''Expense'' else desc),
                       amount = amount, row_notes = Str (trim env (form_notes f)),
                       category = Str (if category = [] then ''Other'' else category) \<rparr>;
               sent = Some (json_roundtrip (expense_row_json row))
           in (case reply of
                 FetchThrows m \<Rightarrow>
                   \<lparr> page_after = p,
                     toasts = [Toast (if m = [] then ''Failed to save expense to database.'' else m)
                                 error 4000],
                     request = sent \<rparr>
               | Response ok body \<Rightarrow>
                   if \<not> ok then
                     let m = failure_message env ''Failed to save expense'' body
                     in \<lparr> page_after = p,
                          toasts = [Toast (if m = [] then ''Failed to save expense to database.''
                                           else m) error 4000],
                          request = sent \<rparr>
                   else
                     \<lparr> page_after = p\<lparr> expenses := expenses p @ [row],
                              expenseForm := \<lparr> form_date = form_date f, form_desc = [],
                                               form_amount = [], form_notes = [],
                                               form_category = [] \<rparr> \<rparr>,
                       toasts = [Toast ''Expense added'' success 2500],
                       request = sent \<rparr>))"

subsection \<open>Export and import\<close>

text \<open>
  \<open>exportJSON\<close> builds \<^verbatim>\<open>{ version: 1, rate, exportedAt, income, expenses, categories }\<close>
  and downloads \<open>JSON.stringify\<close> of it; \<open>exportedAt\<close> is the time stamp of the call. The
  value below is the object; a reader of the downloaded file gets \<open>json_roundtrip\<close> of it.
\<close>

definition exportJSON :: "string \<Rightarrow> page \<Rightarrow> jsval" where
  "exportJSON exportedAt p =
     Obj [(''version'', Num (Fin 1)), (''rate'', Num (rate p)), (''exportedAt'', Str exportedAt),
          (''income'', Arr (map income_row_json (income p))),
          (''expenses'', Arr (map expense_row_json (expenses p))),
          (''categories'', Arr (categories p))]"

text \<open>
  The import reads the rows of the document one after the other. \<open>uid\<close> is the sequence of
  the values that successive calls of \<open>uid()\<close> return, and \<open>k\<close> counts the calls made so far;
  \<open>n.id || uid()\<close> calls it only when the id is falsy. A row that is \<open>null\<close> makes the first
  property read throw, and an amount that cannot be converted makes \<open>Number\<close> throw.
\<close>

definition id_or_uid :: "(nat \<Rightarrow> string) \<Rightarrow> nat \<Rightarrow> jsval \<Rightarrow> jsval \<times> nat" where
  "id_or_uid uid k n =
     (if truthy (get_prop n ''id'') then (get_prop n ''id'', k) else (Str (uid k), Suc k))"

text \<open>\<open>Math.max(0, Number(n.amount || 0))\<close>\<close>

definition imported_amount :: "builtins \<Rightarrow> jsval \<Rightarrow> exn + number" where
  "imported_amount env n =
     (case ToNumber env (js_or (get_prop n ''amount'') (Num (Fin 0))) of
        Inl err \<Rightarrow> Inl err
      | Inr x \<Rightarrow> Inr (Math_max (Fin 0) x))"

definition import_income_row ::
  "builtins \<Rightarrow> (nat \<Rightarrow> string) \<Rightarrow> nat \<Rightarrow> jsval \<Rightarrow> exn + row \<times> nat" where
  "import_income_row env uid k n =
     (if nullish n then Inl (read_of_nullish n ''id'')
      else let (i, k') = id_or_uid uid k n
           in case imported_amount env n of
                Inl err \<Rightarrow> Inl err
              | Inr a \<Rightarrow>
                  Inr (\<lparr> row_id = i,
                         date = js_or (get_prop n ''date'') (Str []),
                         desc = js_or (get_prop n ''desc'') (Str []),
                         amount = a,
                         row_notes = js_or (get_prop n ''notes'') (Str []) \<rparr>, k'))"

definition import_expense_row ::
  "builtins \<Rightarrow> (nat \<Rightarrow> string) \<Rightarrow> nat \<Rightarrow> jsval \<Rightarrow> exn + expense_row \<times> nat" where
  "import_expense_row env uid k n =
     (if nullish n then Inl (read_of_nullish n ''id'')
      else let (i, k') = id_or_uid uid k n
           in case imported_amount env n of
                Inl err \<Rightarrow> Inl err
              | Inr a \<Rightarrow>
                  Inr (\<lparr> row_id = i,
                         date = js_or (get_prop n ''date'') (Str []),
                         desc = js_or (get_prop n ''desc'') (Str []),
                         amount = a,
                         row_notes = js_or (get_prop n ''notes'') (Str []),
                         category = js_or (get_prop n ''category'') (Str ''Other'') \<rparr>, k'))"

text \<open>\<open>xs.map(f)\<close> for an \<open>f\<close> that may throw and that draws from \<open>uid\<close>.\<close>

fun map_rows :: "(nat \<Rightarrow> jsval \<Rightarrow> exn + 'r \<times> nat) \<Rightarrow> nat \<Rightarrow> jsval list \<Rightarrow> exn + 'r list \<times> nat" where
  "map_rows f k [] = Inr ([], k)"
| "map_rows f k (n # ns) =
     (case f k n of
        Inl e \<Rightarrow> Inl e
      | Inr (r, k1) \<Rightarrow>
          (case map_rows f k1 ns of
             Inl e \<Rightarrow> Inl e
           | Inr (rs, k2) \<Rightarrow> Inr (r # rs, k2)))"

text \<open>\<open>cs.map((c: any) => String(c))\<close>\<close>

fun map_String :: "builtins \<Rightarrow> jsval list \<Rightarrow> exn + jsval list" where
  "map_String env [] = Inr []"
| "map_String env (c # cs) =
     (case ToString env c of
        Inl e \<Rightarrow> Inl e
      | Inr s \<Rightarrow> (case map_String env cs of Inl e \<Rightarrow> Inl e | Inr ss \<Rightarrow> Inr (Str s # ss)))"

text \<open>
  \<^verbatim>\<open>Array.isArray(obj.categories) && obj.categories.length
    ? obj.categories.map((c: any) => String(c)) : [...DEFAULT_CATEGORIES]\<close>
\<close>

definition imported_cat :: "builtins \<Rightarrow> jsval \<Rightarrow> exn + jsval list" where
  "imported_cat env obj =
     (if isArray (get_prop obj ''categories'') \<and> length (elems (get_prop obj ''categories'')) \<noteq> 0
      then map_String env (elems (get_prop obj ''categories''))
      else Inr (map Str DEFAULT_CATEGORIES))"

text \<open>
  The body of the \<open>try\<close> block of \<open>reader.onload\<close>. \<open>parsed\<close> is what
  \<^verbatim>\<open>JSON.parse(String(reader.result || "{}"))\<close> comes to: \<open>Inl m\<close> when it throws a
  \<open>SyntaxError\<close> of message \<open>m\<close>, \<open>Inr obj\<close> when it returns \<open>obj\<close>. \<open>confirmReplace\<close> is the
  user's answer to \<open>window.confirm\<close>, asked only of a document that passed the check. The
  result is the thrown error, \<open>None\<close> when the user declined, or the three new state values.
\<close>

definition import_document ::
  "builtins \<Rightarrow> (nat \<Rightarrow> string) \<Rightarrow> bool \<Rightarrow> string + jsval
     \<Rightarrow> exn + (row list \<times> expense_row list \<times> jsval list) option" where
  "import_document env uid confirmReplace parsed =
     (case parsed of
        Inl m \<Rightarrow> Inl (SyntaxError m)
      | Inr obj \<Rightarrow>
          if \<not> truthy obj \<or> \<not> isArray (get_prop obj ''income'')
             \<or> \<not> isArray (get_prop obj ''expenses'')
          then Inl (Error ''Invalid format: Missing income/expenses arrays'')
          else if \<not> confirmReplace then Inr None
          else
            (case map_rows (import_income_row env uid) 0 (elems (get_prop obj ''income'')) of
               Inl e \<Rightarrow> Inl e
             | Inr (inc, k) \<Rightarrow>
                 (case map_rows (import_expense_row env uid) k
                         (elems (get_prop obj ''expenses'')) of
                    Inl e \<Rightarrow> Inl e
                  | Inr (exps, k') \<Rightarrow>
                      (case imported_cat env obj of
                         Inl e \<Rightarrow> Inl e
                       | Inr cat \<Rightarrow>
                           Inr (Some (inc, exps, from_Set (cat @ map category exps)))))))"

text \<open>What the file picker and the reader deliver to \<open>onFilePicked\<close>.\<close>

datatype picked = NoFile | ReadFailed | Loaded "string + jsval"

definition onFilePicked ::
  "builtins \<Rightarrow> (nat \<Rightarrow> string) \<Rightarrow> bool \<Rightarrow> picked \<Rightarrow> page \<Rightarrow> page \<times> toast list" where
  "onFilePicked env uid confirmReplace f p =
     (case f of
        NoFile \<Rightarrow> (p, [])
      | ReadFailed \<Rightarrow> (p, [Toast ''Failed to read file.'' error 3500])
      | Loaded parsed \<Rightarrow>
          (case import_document env uid confirmReplace parsed of
             Inl err \<Rightarrow> (p, [Toast (''Import failed: '' @ message err) error 5000])
           | Inr None \<Rightarrow> (p, [])
           | Inr (Some (inc, exps, cat)) \<Rightarrow>
               (p\<lparr> income := inc, expenses := exps, categories := cat \<rparr>,
                [Toast ''Import successful'' success 2500])))"

subsection \<open>The exchange rate\<close>

text \<open>\<open>v?.k\<close>\<close>

definition opt_prop :: "jsval \<Rightarrow> string \<Rightarrow> jsval" where
  "opt_prop v k = (if nullish v then Undefined else get_prop v k)"

text \<open>\<^verbatim>\<open>const [rate, setRate] = useState(1388)\<close>\<close>

definition initial_rate :: number where
  "initial_rate = Fin 1388"

text \<open>
  The effect that loads the saved rate. \<open>localStorage.getItem\<close> throws, or returns the
  stored string or \<open>null\<close>.
\<close>

datatype storage_read = StorageThrows | Item "string option"

definition load_saved_rate :: "builtins \<Rightarrow> storage_read \<Rightarrow> number \<Rightarrow> number" where
  "load_saved_rate env saved rt =
     (case saved of
        StorageThrows \<Rightarrow> rt
      | Item None \<Rightarrow> rt
      | Item (Some s) \<Rightarrow>
          if s = [] then rt
          else let parsed = StringToNumber env s
               in if \<not> isFinite parsed \<or> js_le parsed (Fin 0) then rt else parsed)"

text \<open>
  \<open>refreshRate\<close>. \<open>reply\<close> is what the request to the rate service came to, \<open>cancelled\<close>
  whether the component was unmounted meanwhile. The result is the rate afterwards and
  the toasts shown. The check is made on the quote; the value adopted is \<open>1 / usdPerKrw\<close>.
\<close>

definition refreshRate :: "builtins \<Rightarrow> server_reply \<Rightarrow> bool \<Rightarrow> number \<Rightarrow> number \<times> toast list" where
  "refreshRate env reply cancelled rt =
     (let failed = (if cancelled then (rt, [])
                    else (rt, [Toast ''Unable to refresh exchange rate. Using the last known value.''
                                 error 4000]))
      in case reply of
           FetchThrows m \<Rightarrow> failed
         | Response ok body \<Rightarrow>
             if \<not> ok then failed
             else (case body of
                     None \<Rightarrow> failed
                   | Some data \<Rightarrow>
                       (case ToNumber env (opt_prop (opt_prop data ''rates'') ''USD'') of
                          Inl err \<Rightarrow> failed
                        | Inr usdPerKrw \<Rightarrow>
                            if \<not> isFinite usdPerKrw \<or> js_le usdPerKrw (Fin 0) then failed
                            else let krwPerUsd = js_div (Fin 1) usdPerKrw
                                 in if cancelled then (rt, []) else (krwPerUsd, []))))"

text \<open>The two calls of \<open>setRate\<close> are in these effects; a run of the page is a list of them.\<close>

datatype rate_event = LoadSaved storage_read | Refresh server_reply bool

fun rate_step :: "builtins \<Rightarrow> rate_event \<Rightarrow> number \<Rightarrow> number" where
  "rate_step env (LoadSaved saved) rt = load_saved_rate env saved rt"
| "rate_step env (Refresh reply cancelled) rt = fst (refreshRate env reply cancelled rt)"

definition rate_after :: "builtins \<Rightarrow> rate_event list \<Rightarrow> number" where
  "rate_after env evs = fold (rate_step env) evs initial_rate"

section \<open>The DELETE routes\<close>

text \<open>
  \<open>/api/expenses\<close> and \<open>/api/income\<close> have the same handler up to the table and the
  wording of the 404 message.
\<close>

record db_row =
  id_col :: string
  user_id :: jsval
  content :: jsval

record store =
  income_table :: "db_row list"
  expenses_table :: "db_row list"

record response =
  status :: nat
  body :: jsval

text \<open>\<open>getUserId\<close>, on what \<open>getServerSession\<close> resolved to.\<close>

definition getUserId :: "jsval \<Rightarrow> jsval" where
  "getUserId session =
     (if \<not> truthy (opt_prop session ''user'') then Null
      else get_prop (get_prop session ''user'') ''id'')"

text \<open>
  Modelled from the spec: the relational store is not part of the repository (the \<open>query\<close>
  helper of \<open>lib/db\<close> only hands the statement and its parameters to the connection pool
  of the database driver). The statement
  \<^verbatim>\<open>DELETE FROM t WHERE id = $1 AND user_id = $2 RETURNING id\<close> removes the rows of
  the table whose id and owner equal the two parameters and returns their ids ("issues a
  delete keyed by id and owning user").
\<close>

definition delete_returning_id :: "string \<Rightarrow> jsval \<Rightarrow> db_row list \<Rightarrow> string list \<times> db_row list" where
  "delete_returning_id i userId rows =
     (map id_col (filter (\<lambda>r. id_col r = i \<and> user_id r = userId) rows),
      filter (\<lambda>r. \<not> (id_col r = i \<and> user_id r = userId)) rows)"

definition json_response :: "jsval \<Rightarrow> nat \<Rightarrow> response" where
  "json_response v st = \<lparr> status = st, body = v \<rparr>"

text \<open>
  The handler on one table. \<open>session\<close> is \<open>None\<close> when \<open>getServerSession\<close> throws,
  \<open>id_param\<close> is \<open>searchParams.get('id')\<close>, and \<open>db_up\<close> tells whether the query runs or throws.
\<close>

definition DELETE_from ::
  "string \<Rightarrow> string \<Rightarrow> jsval option \<Rightarrow> string option \<Rightarrow> bool \<Rightarrow> db_row list
     \<Rightarrow> response \<times> db_row list" where
  "DELETE_from Name name session id_param db_up rows =
     (case session of
        None \<Rightarrow>
          (json_response (Obj [(''error'', Str (''Failed to delete '' @ name))]) 500, rows)
      | Some s \<Rightarrow>
          let userId = getUserId s in
          if \<not> truthy userId then
            (json_response (Obj [(''error'', Str ''Unauthorized'')]) 401, rows)
          else
            (case id_param of
               None \<Rightarrow> (json_response (Obj [(''error'', Str ''ID is required'')]) 400, rows)
             | Some i \<Rightarrow>
                 if i = [] then
                   (json_response (Obj [(''error'', Str ''ID is required'')]) 400, rows)
                 else if \<not> db_up then
                   (json_response (Obj [(''error'', Str (''Failed to delete '' @ name))]) 500,
                    rows)
                 else
                   let (returned, rows') = delete_returning_id i userId rows in
                   if length returned = 0 then
                     (json_response (Obj [(''error'', Str (Name @ '' not found''))]) 404, rows')
                   else (json_response (Obj [(''success'', Bool True)]) 200, rows')))"

definition DELETE_expenses ::
  "jsval option \<Rightarrow> string option \<Rightarrow> bool \<Rightarrow> store \<Rightarrow> response \<times> store" where
  "DELETE_expenses session id_param db_up db =
     (let (res, rows') =
            DELETE_from ''Expense'' ''expense'' session id_param db_up (expenses_table db)
      in (res, db\<lparr> expenses_table := rows' \<rparr>))"

definition DELETE_income ::
  "jsval option \<Rightarrow> string option \<Rightarrow> bool \<Rightarrow> store \<Rightarrow> response \<times> store" where
  "DELETE_income session id_param db_up db =
     (let (res, rows') =
            DELETE_from ''Income'' ''income'' session id_param db_up (income_table db)
      in (res, db\<lparr> income_table := rows' \<rparr>))"

section \<open>Notions used to state the properties\<close>

text \<open>The number of rows of a document without a usable id: the calls of \<open>uid()\<close> they cost.\<close>

definition missing_ids :: "jsval list \<Rightarrow> nat" where
  "missing_ids ns = length (filter (\<lambda>n. \<not> truthy (get_prop n ''id'')) ns)"

text \<open>The rows of a result that stand for the rows of the document without a usable id.\<close>

definition rows_given_ids :: "jsval list \<Rightarrow> ('a row_scheme) list \<Rightarrow> ('a row_scheme) list" where
  "rows_given_ids ns rs = map snd (filter (\<lambda>nr. \<not> truthy (get_prop (fst nr) ''id'')) (zip ns rs))"

fun is_string :: "jsval \<Rightarrow> bool" where
  "is_string (Str s) = True"
| "is_string _ = False"

fun nonblank :: "jsval \<Rightarrow> bool" where
  "nonblank (Str s) = (s \<noteq> [])"
| "nonblank _ = False"

fun finite_nonneg :: "number \<Rightarrow> bool" where
  "finite_nonneg (Fin a) = (0 \<le> a)"
| "finite_nonneg _ = False"

text \<open>
  A row whose fields have their declared types, with a non-empty id and a finite amount
  that is not negative; \<open>notes\<close> is optional.
\<close>

definition typed_row :: "'a row_scheme \<Rightarrow> bool" where
  "typed_row r =
     (nonblank (row_id r) \<and> is_string (date r) \<and> is_string (desc r) \<and>
      finite_nonneg (amount r) \<and> (row_notes r = Undefined \<or> is_string (row_notes r)))"

text \<open>The row with absent notes filled in by the empty string.\<close>

definition default_notes :: "'a row_scheme \<Rightarrow> 'a row_scheme" where
  "default_notes r = r\<lparr> row_notes := js_or (row_notes r) (Str []) \<rparr>"

text \<open>A number that is a positive integer.\<close>

fun positive_integer :: "number \<Rightarrow> bool" where
  "positive_integer (Fin a) = (0 < a \<and> of_int \<lfloor>a\<rfloor> = a)"
| "positive_integer _ = False"

text \<open>The server confirmed the insert: a response arrived and its \<open>ok\<close> flag is set.\<close>

fun confirmed :: "server_reply \<Rightarrow> bool" where
  "confirmed (Response ok b) = ok"
| "confirmed (FetchThrows m) = False"

text \<open>The ids of the rows of a page, income first.\<close>

definition ids :: "page \<Rightarrow> jsval list" where
  "ids p = map row_id (income p) @ map row_id (expenses p)"

text \<open>The sum of a list of numbers as JavaScript adds them, from the left and starting at 0.\<close>

definition sum_numbers :: "number list \<Rightarrow> number" where
  "sum_numbers xs = fold (\<lambda>x s. js_add s x) xs (Fin 0)"

text \<open>The amounts of a breakdown, one for each of its categories, as the table shows them.\<close>

definition breakdown_amounts :: "builtins \<Rightarrow> record_of_number \<Rightarrow> number list" where
  "breakdown_amounts env byCat = map (\<lambda>kv. cell_number env (Own (snd kv))) byCat"

text \<open>A category that is a string and not the name of a property that a plain object inherits.\<close>

fun plain_category :: "jsval \<Rightarrow> bool" where
  "plain_category (Str s) = (s \<notin> set Object_prototype)"
| "plain_category _ = False"

text \<open>A number that is a whole number, and the absolute value of a finite number.\<close>

fun whole :: "number \<Rightarrow> bool" where
  "whole (Fin a) = (of_int \<lfloor>a\<rfloor> = a)"
| "whole _ = False"

fun magnitude :: "number \<Rightarrow> rat" where
  "magnitude (Fin a) = \<bar>a\<bar>"
| "magnitude _ = 0"

section \<open>Inputs for the examples\<close>

text \<open>
  An instance of the built-in functions for the examples. It agrees with JavaScript on
  the arguments the examples give it: for the two conversions a string of decimal digits,
  the empty string, the strings \<open>Infinity\<close> and \<open>abc\<close>, and a non-negative whole number; for
  \<open>trim\<close> a string of ASCII characters; for the text of a built-in function the name
  \<open>constructor\<close>, under which a plain object inherits the function \<open>Object\<close> (V8's wording).
\<close>

fun digits_value :: "nat \<Rightarrow> string \<Rightarrow> nat option" where
  "digits_value acc [] = Some acc"
| "digits_value acc (c # cs) =
     (if (48::nat) \<le> of_char c \<and> of_char c \<le> (57::nat)
      then digits_value (10 * acc + (of_char c - 48)) cs
      else None)"

definition example_StringToNumber :: "string \<Rightarrow> number" where
  "example_StringToNumber s =
     (if s = [] then Fin 0
      else if s = ''Infinity'' then PInf
      else case digits_value 0 s of Some n \<Rightarrow> Fin (of_nat n) | None \<Rightarrow> NaN)"

definition digit_char :: "nat \<Rightarrow> char" where
  "digit_char n = ''0123456789'' ! n"

fun digits_of :: "nat \<Rightarrow> nat \<Rightarrow> string" where
  "digits_of 0 n = []"
| "digits_of (Suc fuel) n =
     (if n < 10 then [digit_char n] else digits_of fuel (n div 10) @ [digit_char (n mod 10)])"

definition example_NumberToString :: "number \<Rightarrow> string" where
  "example_NumberToString x =
     (case x of
        Fin q \<Rightarrow> digits_of (Suc (nat \<lfloor>q\<rfloor>)) (nat \<lfloor>q\<rfloor>)
      | PInf \<Rightarrow> ''Infinity''
      | NInf \<Rightarrow> ''-Infinity''
      | NaN \<Rightarrow> ''NaN'')"

definition white_space :: "char \<Rightarrow> bool" where
  "white_space c = (c \<in> set [CHR '' '', CHR 0x09, CHR 0x0A, CHR 0x0B, CHR 0x0C, CHR 0x0D])"

definition example_trim :: "string \<Rightarrow> string" where
  "example_trim s = rev (dropWhile white_space (rev (dropWhile white_space s)))"

definition example_NativeToString :: "string \<Rightarrow> string" where
  "example_NativeToString k =
     ''function '' @ (if k = ''constructor'' then ''Object'' else k) @ ''() { [native code] }''"

definition example_env :: builtins where
  "example_env = \<lparr> StringToNumber = example_StringToNumber,
                   NumberToString = example_NumberToString,
                   trim = example_trim,
                   NativeToString = example_NativeToString \<rparr>"

definition example_uid :: "nat \<Rightarrow> string" where
  "example_uid k = ''id-'' @ digits_of (Suc k) k"

definition example_page :: page where
  "example_page =
     \<lparr> rate = Fin 1200,
       income = [\<lparr> row_id = Str ''id-a'', date = Str ''2024-01-01'', desc = Str ''Income'',
                   amount = Fin 3000000, row_notes = Str [] \<rparr>],
       expenses = [\<lparr> row_id = Str ''id-b'', date = Str ''2024-01-02'', desc = Str ''Expense'',
                     amount = Fin 1200000, row_notes = Undefined,
                     category = Str ''Food & Drinks'' \<rparr>],
       categories = map Str DEFAULT_CATEGORIES,
       incomeForm = \<lparr> form_date = ''2024-01-03'', form_desc = [], form_amount = ''1500000'',
                      form_notes = [] \<rparr>,
       expenseForm = \<lparr> form_date = ''2024-01-03'', form_desc = '' Lunch '', form_amount = ''9000'',
                       form_notes = [], form_category = [] \<rparr> \<rparr>"

definition example_session :: jsval where
  "example_session = Obj [(''user'', Obj [(''id'', Str ''u1''), (''email'', Str ''a@b.c'')])]"

definition example_store :: store where
  "example_store =
     \<lparr> income_table = [\<lparr> id_col = ''i1'', user_id = Str ''u1'', content = Null \<rparr>],
       expenses_table = [\<lparr> id_col = ''e1'', user_id = Str ''u1'', content = Null \<rparr>,
                         \<lparr> id_col = ''e2'', user_id = Str ''u2'', content = Null \<rparr>] \<rparr>"

definition example_expense :: "string \<Rightarrow> string \<Rightarrow> number \<Rightarrow> expense_row" where
  "example_expense i cat amt =
     \<lparr> row_id = Str i, date = Str ''2024-01-02'', desc = Str ''Expense'', amount = amt,
       row_notes = Str [], category = Str cat \<rparr>"

definition example_document :: jsval where
  "example_document =
     Obj [(''version'', Num (Fin 1)),
          (''income'',
             Arr [Obj [(''date'', Str ''2024-01-01''), (''amount'', Num (Fin 3000000))],
                  Obj [(''id'', Str ''x''), (''date'', Str ''2024-01-05''),
                       (''amount'', Num (Fin (- 500)))]]),
          (''expenses'',
             Arr [Obj [(''date'', Str ''2024-01-02''), (''category'', Str []),
                       (''amount'', Str ''1200'')],
                  Obj [(''id'', Str ''y''), (''date'', Str ''2024-01-03''),
                       (''category'', Str ''Fun''), (''amount'', Num (Fin 9000))]]),
          (''categories'', Arr [Str ''Fun'', Str ''Rent''])]"

text \<open>
  A page whose rows have their declared types but were not made by the forms: a negative
  amount, an empty id, an empty category (rows that the loader copies from the server as
  they are).
\<close>

definition example_loaded_page :: page where
  "example_loaded_page =
     example_page
       \<lparr> income := [\<lparr> row_id = Str ''id-a'', date = Str ''2024-01-01'', desc = Str ''Refund'',
                        amount = Fin (- 500), row_notes = Str [] \<rparr>,
                     \<lparr> row_id = Str [], date = Str ''2024-01-04'', desc = Str ''Income'',
                        amount = Fin 100, row_notes = Str [] \<rparr>],
         expenses := [\<lparr> row_id = Str ''id-b'', date = Str ''2024-01-02'', desc = Str ''Expense'',
                          amount = Fin 1200000, row_notes = Str [], category = Str [] \<rparr>] \<rparr>"

section \<open>Rounding to binary64\<close>

lemma bitlen_pos: "0 < n \<Longrightarrow> 1 \<le> bitlen n"
  using bitlen_bounds [of n] bitlen_nonneg [of n]
  by (cases "bitlen n = 0") auto

lemma two_powi_nat: "0 \<le> e \<Longrightarrow> (2::rat) powi e = of_int (2 ^ nat e)"
  by (simp add: power_int_def)

lemma ilog2_bounds_ge1:
  assumes "1 \<le> m"
  shows "2 powi ilog2 m \<le> m \<and> m < 2 powi (ilog2 m + 1)"
proof -
  let ?n = "\<lfloor>m\<rfloor>"
  have n: "0 < ?n" using assms by simp
  from bitlen_bounds [OF n] have lo: "2 ^ nat (bitlen ?n - 1) \<le> ?n" and hi: "?n < 2 ^ nat (bitlen ?n)"
    by simp_all
  have b: "1 \<le> bitlen ?n" using n by (rule bitlen_pos)
  have e: "ilog2 m = bitlen ?n - 1" using assms by (simp add: ilog2_def)
  have "(2::rat) powi (bitlen ?n - 1) = of_int (2 ^ nat (bitlen ?n - 1))"
    using b by (intro two_powi_nat) simp
  also have "\<dots> \<le> of_int ?n" using lo by (simp only: of_int_le_iff)
  also have "\<dots> \<le> m" by simp
  finally have 1: "2 powi ilog2 m \<le> m" by (simp add: e)
  have "?n + 1 \<le> 2 ^ nat (bitlen ?n)" using hi by simp
  then have "(of_int (?n + 1) :: rat) \<le> of_int (2 ^ nat (bitlen ?n))" by (simp only: of_int_le_iff)
  moreover have "m < of_int (?n + 1)" by linarith
  ultimately have "m < of_int (2 ^ nat (bitlen ?n))" by (rule less_le_trans [rotated])
  also have "\<dots> = 2 powi (bitlen ?n)" using b by (subst two_powi_nat) simp_all
  finally have 2: "m < 2 powi (ilog2 m + 1)" by (simp add: e)
  from 1 2 show ?thesis ..
qed

lemma ilog2_bounds_lt1:
  assumes "0 < m" "m < 1"
  shows "2 powi ilog2 m \<le> m \<and> m < 2 powi (ilog2 m + 1)"
proof -
  let ?x = "1 / m"
  let ?d = "\<lceil>?x\<rceil> - 1"
  have x: "1 < ?x" using assms by simp
  then have d: "0 < ?d" by (simp add: less_ceiling_iff)
  from bitlen_bounds [OF d] have lo: "2 ^ nat (bitlen ?d - 1) \<le> ?d" and hi: "?d < 2 ^ nat (bitlen ?d)"
    by simp_all
  have b: "1 \<le> bitlen ?d" using d by (rule bitlen_pos)
  have e: "ilog2 m = - bitlen ?d" using assms by (simp add: ilog2_def)
  have "\<lceil>?x\<rceil> \<le> 2 ^ nat (bitlen ?d)" using hi by simp
  then have "(of_int \<lceil>?x\<rceil> :: rat) \<le> of_int (2 ^ nat (bitlen ?d))" by (simp only: of_int_le_iff)
  moreover have "?x \<le> of_int \<lceil>?x\<rceil>" by (rule le_of_int_ceiling)
  ultimately have "?x \<le> of_int (2 ^ nat (bitlen ?d))" by (rule order_trans [rotated])
  also have "\<dots> = 2 powi (bitlen ?d)" using b by (subst two_powi_nat) simp_all
  finally have "1 / m \<le> 2 powi (bitlen ?d)" .
  then have "1 / 2 powi (bitlen ?d) \<le> m"
    using assms by (simp add: field_simps)
  then have 1: "2 powi ilog2 m \<le> m" by (simp add: e power_int_minus_divide)
  have "(of_int (2 ^ nat (bitlen ?d - 1)) :: rat) \<le> of_int ?d" using lo by (simp only: of_int_le_iff)
  moreover have "of_int ?d < ?x" by linarith
  ultimately have "(of_int (2 ^ nat (bitlen ?d - 1)) :: rat) < ?x" by (rule le_less_trans)
  moreover have "(2::rat) powi (bitlen ?d - 1) = of_int (2 ^ nat (bitlen ?d - 1))"
    using b by (intro two_powi_nat) simp
  ultimately have "(2::rat) powi (bitlen ?d - 1) < 1 / m" by simp
  then have "m < 1 / 2 powi (bitlen ?d - 1)"
    using assms by (simp add: field_simps)
  also have "\<dots> = 2 powi (- (bitlen ?d - 1))" by (simp only: power_int_minus_divide)
  finally have 2: "m < 2 powi (ilog2 m + 1)" by (simp add: e)
  from 1 2 show ?thesis ..
qed

lemma ilog2_bounds: "0 < m \<Longrightarrow> 2 powi ilog2 m \<le> m \<and> m < 2 powi (ilog2 m + 1)"
  using ilog2_bounds_ge1 [of m] ilog2_bounds_lt1 [of m] by (cases "1 \<le> m") auto

lemma ilog2_unique:
  assumes "0 < m" "2 powi e \<le> m" "m < 2 powi (e + 1)"
  shows "ilog2 m = e"
proof -
  from ilog2_bounds [OF assms(1)] have lo: "2 powi ilog2 m \<le> m" and hi: "m < 2 powi (ilog2 m + 1)"
    by simp_all
  have "\<not> ilog2 m < e"
  proof
    assume "ilog2 m < e"
    then have "ilog2 m + 1 \<le> e" by simp
    then have "(2::rat) powi (ilog2 m + 1) \<le> 2 powi e" by (intro power_int_increasing) simp_all
    with hi assms(2) show False by simp
  qed
  moreover have "\<not> e < ilog2 m"
  proof
    assume "e < ilog2 m"
    then have "e + 1 \<le> ilog2 m" by simp
    then have "(2::rat) powi (e + 1) \<le> 2 powi ilog2 m" by (intro power_int_increasing) simp_all
    with lo assms(3) show False by simp
  qed
  ultimately show ?thesis by simp
qed

lemma round_half_even_of_int [simp]: "round_half_even (of_int k) = k"
  by (simp add: round_half_even_def)

lemma round_half_even_close:
  "\<bar>of_int (round_half_even x) - x\<bar> \<le> 1 / 2"
proof -
  have "of_int \<lfloor>x\<rfloor> \<le> x" "x < of_int \<lfloor>x\<rfloor> + 1" by linarith+
  then show ?thesis
    by (auto simp: round_half_even_def Let_def abs_le_iff)
qed

lemma round64_0 [simp]: "round64 0 = Fin 0"
  by (simp add: round64_def)

lemma round64_pos:
  assumes "0 < q" "2 powi e \<le> q" "q < 2 powi (e + 1)"
  shows "round64 q = round_at e q False"
  using assms ilog2_unique [OF assms] by (simp add: round64_def)

lemma floor_numeral_quotient:
  "\<lfloor>(numeral a :: rat) / numeral b\<rfloor> = (numeral a div numeral b :: int)"
  using floor_divide_of_int_eq [of "numeral a" "numeral b", where ?'a = rat] by simp

lemma round64_minus: "round64 (- q) = js_neg (round64 q)"
  by (simp add: round64_def round_at_def Let_def signed_inf_def)

lemma ilog2_ge:
  assumes "0 < q" "2 powi k \<le> q"
  shows "k \<le> ilog2 q"
proof (rule ccontr)
  assume "\<not> k \<le> ilog2 q"
  then have "ilog2 q + 1 \<le> k" by simp
  then have "(2::rat) powi (ilog2 q + 1) \<le> 2 powi k" by (intro power_int_increasing) simp_all
  with ilog2_bounds [OF assms(1)] assms(2) show False by simp
qed

lemma ilog2_less:
  assumes "0 < q" "q < 2 powi k"
  shows "ilog2 q < k"
proof (rule ccontr)
  assume "\<not> ilog2 q < k"
  then have "k \<le> ilog2 q" by simp
  then have "(2::rat) powi k \<le> 2 powi ilog2 q" by (intro power_int_increasing) simp_all
  with ilog2_bounds [OF assms(1)] assms(2) show False by simp
qed

lemma round64_whole_pos:
  assumes "0 < z" "z \<le> 2 ^ 53"
  shows "round64 (of_int z) = Fin (of_int z)"
proof -
  let ?q = "of_int z :: rat"
  let ?e = "ilog2 ?q"
  have "(of_int z :: rat) \<le> of_int (2 ^ 53)" using assms(2) by (simp only: of_int_le_iff)
  then have q3: "?q \<le> 2 ^ 53" by simp
  have "(of_int 1 :: rat) \<le> of_int z" using assms(1) by (simp only: of_int_le_iff)
  then have q2: "1 \<le> ?q" by simp
  have q1: "0 < ?q" using assms(1) by simp
  note q = q1 q2 q3
  have "(2::rat) powi 0 \<le> ?q" using q by simp
  with q(1) have e0: "0 \<le> ?e" by (rule ilog2_ge)
  have "?q < 2 powi 54" using q by simp
  with q(1) have e54: "?e < 54" by (rule ilog2_less)
  have m: "max ?e (- 1022) = ?e" using e0 by simp
  have r: "of_int (round_half_even (?q / 2 powi (?e - 52))) * 2 powi (?e - 52) = ?q"
  proof (cases "?e \<le> 52")
    case True
    have "?q / 2 powi (?e - 52) = ?q * 2 powi (52 - ?e)"
      by (simp add: power_int_diff)
    also have "\<dots> = of_int (z * 2 ^ nat (52 - ?e))"
      using True by (simp add: two_powi_nat)
    finally have "?q / 2 powi (?e - 52) = of_int (z * 2 ^ nat (52 - ?e))" .
    then have "of_int (round_half_even (?q / 2 powi (?e - 52))) = ?q / 2 powi (?e - 52)"
      by (simp only: round_half_even_of_int)
    then show ?thesis by simp
  next
    case False
    then have e: "?e = 53" using e54 by simp
    from ilog2_bounds [OF q(1)] have "2 powi 53 \<le> ?q" by (simp add: e)
    with q(3) have "?q = 2 ^ 53" by simp
    then have "?q / 2 = of_int (2 ^ 52)" by simp
    then have "of_int (round_half_even (?q / 2)) = ?q / 2"
      by (simp only: round_half_even_of_int)
    moreover have "(2::rat) powi (?e - 52) = 2" by (simp add: e)
    ultimately show ?thesis by simp
  qed
  have "\<not> (2::rat) ^ 1024 \<le> ?q" using q(3) by simp
  then show ?thesis
    using q(1) by (simp add: round64_def round_at_def Let_def m r)
qed

lemma round64_whole: "\<bar>z\<bar> \<le> 2 ^ 53 \<Longrightarrow> round64 (of_int z) = Fin (of_int z)"
proof -
  assume a: "\<bar>z\<bar> \<le> 2 ^ 53"
  consider "z = 0" | "0 < z" | "z < 0" by linarith
  then show ?thesis
  proof cases
    case 1
    then show ?thesis by simp
  next
    case 2
    then show ?thesis using a by (intro round64_whole_pos) simp_all
  next
    case 3
    then have "round64 (of_int (- z)) = Fin (of_int (- z))" using a by (intro round64_whole_pos) simp_all
    then have "js_neg (round64 (of_int z)) = Fin (- of_int z)" by (simp add: round64_minus)
    then show ?thesis by (cases "round64 (of_int z)") simp_all
  qed
qed

lemma rel_bounds:
  fixes r q c :: rat
  shows "\<bar>r - q\<bar> \<le> q / c \<Longrightarrow> q * (1 - 1 / c) \<le> r \<and> r \<le> q * (1 + 1 / c)"
  by (auto simp: abs_le_iff right_diff_distrib distrib_left)

lemma round64_rel:
  assumes lo: "2 powi (- 1022) \<le> q" and hi: "q < 2 ^ 1023"
  shows "\<exists>r. round64 q = Fin r \<and> q * (1 - 1 / 2 ^ 53) \<le> r \<and> r \<le> q * (1 + 1 / 2 ^ 53)"
proof -
  let ?e = "ilog2 q"
  let ?u = "(2::rat) powi (?e - 52)"
  let ?n = "round_half_even (q / ?u)"
  let ?r = "of_int ?n * ?u"
  have q: "0 < q" using lo by (rule less_le_trans [rotated]) simp
  from q lo have e: "- 1022 \<le> ?e" by (rule ilog2_ge)
  then have m: "max ?e (- 1022) = ?e" by simp
  have u: "0 < ?u" by simp
  have "\<bar>of_int ?n - q / ?u\<bar> \<le> 1 / 2" by (rule round_half_even_close)
  then have "\<bar>of_int ?n - q / ?u\<bar> * ?u \<le> 1 / 2 * ?u"
    using u by (intro mult_right_mono) simp_all
  moreover have "\<bar>of_int ?n - q / ?u\<bar> * ?u = \<bar>?r - q\<bar>"
  proof -
    have "\<bar>of_int ?n - q / ?u\<bar> * ?u = \<bar>(of_int ?n - q / ?u) * ?u\<bar>"
      using u by (simp only: abs_mult abs_of_pos)
    also have "(of_int ?n - q / ?u) * ?u = ?r - q"
      using u by (simp add: left_diff_distrib)
    finally show ?thesis .
  qed
  ultimately have d: "\<bar>?r - q\<bar> \<le> ?u / 2" by simp
  have "?u / 2 = 2 powi ?e / 2 ^ 53" by (simp add: power_int_diff)
  also have "\<dots> \<le> q / 2 ^ 53"
    using ilog2_bounds [OF q] by (intro divide_right_mono) simp_all
  finally have "?u / 2 \<le> q / 2 ^ 53" .
  with d have b: "\<bar>?r - q\<bar> \<le> q / 2 ^ 53" by simp
  then have 1: "q * (1 - 1 / 2 ^ 53) \<le> ?r" and 2: "?r \<le> q * (1 + 1 / 2 ^ 53)"
    using rel_bounds [of ?r q "2 ^ 53"] by simp_all
  have "q * (1 + 1 / 2 ^ 53) \<le> q * 2" using q by (intro mult_left_mono) simp_all
  also have "\<dots> < 2 ^ 1023 * 2" using hi by simp
  finally have "q * (1 + 1 / 2 ^ 53) < 2 ^ 1024" by simp
  with 2 have "\<not> 2 ^ 1024 \<le> ?r" by simp
  then have "round64 q = Fin ?r" using q by (simp add: round64_def round_at_def Let_def m)
  with 1 2 show ?thesis by blast
qed

lemma round64_numeral:
  "numeral n \<le> (2 ^ 53 :: int) \<Longrightarrow> round64 (numeral n) = Fin (numeral n)"
  using round64_whole [of "numeral n"] by simp

lemma js_add_whole:
  "\<bar>x + y\<bar> \<le> 2 ^ 53 \<Longrightarrow> js_add (Fin (of_int x)) (Fin (of_int y)) = Fin (of_int (x + y))"
  using round64_whole [of "x + y"] by simp


section \<open>Properties of the conversion\<close>

text \<open>
  C1. For every KRW amount and every rate, \<open>krwToUsd\<close> returns \<open>krw / rate\<close>, the quotient
  as JavaScript's division operator computes it, when the rate is a finite number
  strictly greater than 0, and returns 0 when the rate is non-finite (\<open>NaN\<close> or infinite)
  or less than or equal to 0. The conversion applies no rounding of its own: its result
  is the result of the one division.
\<close>

theorem krwToUsd_spec:
  "(isFinite rt \<and> js_gt rt (Fin 0) \<longrightarrow> krwToUsd krw rt = js_div krw rt) \<and>
   (\<not> isFinite rt \<or> js_le rt (Fin 0) \<longrightarrow> krwToUsd krw rt = Fin 0)"
  by (cases rt) (auto simp: krwToUsd_def js_gt_def)

theorem krwToUsd_spec_witness:
  "isFinite (Fin 1200) \<and> js_gt (Fin 1200) (Fin 0) \<and>
   krwToUsd (Fin 1800000) (Fin 1200) = js_div (Fin 1800000) (Fin 1200) \<and>
   krwToUsd (Fin 1800000) (Fin 1200) = Fin 1500 \<and>
   krwToUsd (Fin 1) (Fin 3) = Fin (6004799503160661 / 18014398509481984) \<and>
   \<not> isFinite NaN \<and> krwToUsd (Fin 1800000) NaN = Fin 0 \<and>
   js_le (Fin (- 5)) (Fin 0) \<and> krwToUsd (Fin 1800000) (Fin (- 5)) = Fin 0"
  using krwToUsd_spec [of "Fin 1200" "Fin 1800000"]
    krwToUsd_spec [of NaN "Fin 1800000"] krwToUsd_spec [of "Fin (- 5)" "Fin 1800000"]
    krwToUsd_spec [of "Fin 3" "Fin 1"] round64_pos [of "1 / 3" "- 2"]
  by (simp add: js_gt_def round64_numeral round_at_def round_half_even_def Let_def
      floor_numeral_quotient)

section \<open>The exchange rate after a refresh\<close>

text \<open>
  C10. The rate of the page is not always finite. \<open>refreshRate\<close> checks that the quote is
  finite and positive and adopts its inverse unchecked. For the quote \<open>5e-324\<close>, the
  smallest positive number (\<open>2 ^ (- 1074)\<close>), the inverse \<open>2 ^ 1074\<close> is beyond the largest
  finite number and the division gives \<open>Infinity\<close>: that becomes the rate, and \<open>krwToUsd\<close>
  then returns 0 by its guard. The effect that loads the saved rate applies the check to
  the value it adopts, and leaves the rate alone when the stored text is \<open>Infinity\<close>.
\<close>

theorem refreshRate_adopts_Infinity:
  "isFinite (Fin (1 / 2 ^ 1074)) \<and> js_gt (Fin (1 / 2 ^ 1074)) (Fin 0) \<and>
   refreshRate example_env
     (Response True (Some (Obj [(''rates'', Obj [(''USD'', Num (Fin (1 / 2 ^ 1074)))])])))
     False (Fin 1388) = (PInf, []) \<and>
   rate_after example_env
     [Refresh (Response True (Some (Obj [(''rates'', Obj [(''USD'', Num (Fin (1 / 2 ^ 1074)))])])))
        False] = PInf \<and>
   krwToUsd (Fin 1388000) PInf = Fin 0 \<and>
   load_saved_rate example_env (Item (Some ''Infinity'')) (Fin 1388) = Fin 1388"
  using round64_pos [of "2 ^ 1074" 1074]
  by (simp add: refreshRate_def rate_after_def initial_rate_def opt_prop_def krwToUsd_def
      load_saved_rate_def example_env_def example_StringToNumber_def js_gt_def
      round_at_def round_half_even_def Let_def signed_inf_def)

theorem rate_not_finite_after_refresh:
  "\<not> isFinite (rate_after example_env
     [Refresh (Response True (Some (Obj [(''rates'', Obj [(''USD'', Num (Fin (1 / 2 ^ 1074)))])])))
        False])"
  using refreshRate_adopts_Infinity by simp

section \<open>Import: rejected documents\<close>

text \<open>
  C5. When the selected file is not valid JSON, or its \<open>income\<close> is not a list, or its
  \<open>expenses\<close> is not a list, the import is rejected: the page state is returned unchanged
  and one error toast reports the reason, the parser's message in the first case and
  "Invalid format: Missing income/expenses arrays" in the others.
\<close>

theorem import_rejected_atomically:
  "(parsed = Inl m \<longrightarrow>
      onFilePicked env uid confirmReplace (Loaded parsed) p
        = (p, [Toast (''Import failed: '' @ m) error 5000])) \<and>
   (parsed = Inr obj \<and>
      (\<not> isArray (get_prop obj ''income'') \<or> \<not> isArray (get_prop obj ''expenses'')) \<longrightarrow>
      onFilePicked env uid confirmReplace (Loaded parsed) p
        = (p, [Toast ''Import failed: Invalid format: Missing income/expenses arrays''
                 error 5000]))"
  by (auto simp: onFilePicked_def import_document_def)

theorem import_rejected_atomically_witness:
  "onFilePicked example_env example_uid True (Loaded (Inl ''Unexpected end of JSON input''))
     example_page
     = (example_page, [Toast ''Import failed: Unexpected end of JSON input'' error 5000]) \<and>
   \<not> isArray (get_prop (Obj [(''income'', Arr [])]) ''expenses'') \<and>
   onFilePicked example_env example_uid True (Loaded (Inr (Obj [(''income'', Arr [])])))
     example_page
     = (example_page,
        [Toast ''Import failed: Invalid format: Missing income/expenses arrays'' error 5000])"
  using import_rejected_atomically [where parsed = "Inl ''Unexpected end of JSON input''"
      and m = "''Unexpected end of JSON input''" and env = example_env and uid = example_uid
      and confirmReplace = True and p = example_page]
    import_rejected_atomically [where parsed = "Inr (Obj [(''income'', Arr [])])"
      and obj = "Obj [(''income'', Arr [])]" and env = example_env and uid = example_uid
      and confirmReplace = True and p = example_page]
  by simp

section \<open>The DELETE routes: status codes and effect on the store\<close>

text \<open>
  C8. A DELETE request to \<open>/api/expenses\<close> or \<open>/api/income\<close>: without a user id in the
  session it is answered 401; with one but without an \<open>id\<close> parameter, 400; with both,
  when the query runs and no row of the table has that id and that owner, 404, and the
  store is unchanged; when some row has them, the rows with that id and that owner are
  removed from the table, nothing else changes, and the answer is \<open>{success: true}\<close>.
\<close>

theorem DELETE_spec:
  "(\<not> truthy (getUserId s) \<longrightarrow>
      DELETE_expenses (Some s) id_param db_up db
        = (\<lparr> status = 401, body = Obj [(''error'', Str ''Unauthorized'')] \<rparr>, db) \<and>
      DELETE_income (Some s) id_param db_up db
        = (\<lparr> status = 401, body = Obj [(''error'', Str ''Unauthorized'')] \<rparr>, db)) \<and>
   (truthy (getUserId s) \<longrightarrow>
      DELETE_expenses (Some s) None db_up db
        = (\<lparr> status = 400, body = Obj [(''error'', Str ''ID is required'')] \<rparr>, db) \<and>
      DELETE_income (Some s) None db_up db
        = (\<lparr> status = 400, body = Obj [(''error'', Str ''ID is required'')] \<rparr>, db)) \<and>
   (truthy (getUserId s) \<and> i \<noteq> [] \<and>
    \<not> (\<exists>r \<in> set (expenses_table db). id_col r = i \<and> user_id r = getUserId s) \<longrightarrow>
      DELETE_expenses (Some s) (Some i) True db
        = (\<lparr> status = 404, body = Obj [(''error'', Str ''Expense not found'')] \<rparr>, db)) \<and>
   (truthy (getUserId s) \<and> i \<noteq> [] \<and>
    \<not> (\<exists>r \<in> set (income_table db). id_col r = i \<and> user_id r = getUserId s) \<longrightarrow>
      DELETE_income (Some s) (Some i) True db
        = (\<lparr> status = 404, body = Obj [(''error'', Str ''Income not found'')] \<rparr>, db)) \<and>
   (truthy (getUserId s) \<and> i \<noteq> [] \<and>
    (\<exists>r \<in> set (expenses_table db). id_col r = i \<and> user_id r = getUserId s) \<longrightarrow>
      DELETE_expenses (Some s) (Some i) True db
        = (\<lparr> status = 200, body = Obj [(''success'', Bool True)] \<rparr>,
           db\<lparr> expenses_table :=
                 filter (\<lambda>r. \<not> (id_col r = i \<and> user_id r = getUserId s))
                   (expenses_table db) \<rparr>)) \<and>
   (truthy (getUserId s) \<and> i \<noteq> [] \<and>
    (\<exists>r \<in> set (income_table db). id_col r = i \<and> user_id r = getUserId s) \<longrightarrow>
      DELETE_income (Some s) (Some i) True db
        = (\<lparr> status = 200, body = Obj [(''success'', Bool True)] \<rparr>,
           db\<lparr> income_table :=
                 filter (\<lambda>r. \<not> (id_col r = i \<and> user_id r = getUserId s))
                   (income_table db) \<rparr>))"
  apply (intro conjI impI)
  apply (auto simp: DELETE_expenses_def DELETE_income_def DELETE_from_def
      delete_returning_id_def json_response_def Let_def filter_empty_conv split: option.splits)
  done

theorem DELETE_spec_witness:
  "getUserId example_session = Str ''u1'' \<and>
   DELETE_expenses (Some Null) (Some ''e1'') True example_store
     = (\<lparr> status = 401, body = Obj [(''error'', Str ''Unauthorized'')] \<rparr>, example_store) \<and>
   DELETE_income (Some example_session) None True example_store
     = (\<lparr> status = 400, body = Obj [(''error'', Str ''ID is required'')] \<rparr>, example_store) \<and>
   DELETE_expenses (Some example_session) (Some ''e2'') True example_store
     = (\<lparr> status = 404, body = Obj [(''error'', Str ''Expense not found'')] \<rparr>, example_store) \<and>
   DELETE_expenses (Some example_session) (Some ''e1'') True example_store
     = (\<lparr> status = 200, body = Obj [(''success'', Bool True)] \<rparr>,
        \<lparr> income_table = [\<lparr> id_col = ''i1'', user_id = Str ''u1'', content = Null \<rparr>],
          expenses_table = [\<lparr> id_col = ''e2'', user_id = Str ''u2'', content = Null \<rparr>] \<rparr>)"
  using DELETE_spec [where s = Null and id_param = "Some ''e1''" and db_up = True
      and db = example_store and i = "''e1''"]
    DELETE_spec [where s = example_session and id_param = None and db_up = True
      and db = example_store and i = "''e2''"]
    DELETE_spec [where s = example_session and id_param = None and db_up = True
      and db = example_store and i = "''e1''"]
  by (simp add: example_session_def example_store_def getUserId_def opt_prop_def)

section \<open>Import: what an accepted document becomes\<close>

lemma Math_max_0_cases: "Math_max (Fin 0) x = NaN \<or> js_le (Fin 0) (Math_max (Fin 0) x)"
  by (cases x) (auto simp: Math_max_def)

lemma imported_amount_Inr:
  "imported_amount env n = Inr a \<Longrightarrow>
   \<exists>x. ToNumber env (js_or (get_prop n ''amount'') (Num (Fin 0))) = Inr x \<and>
       a = Math_max (Fin 0) x"
  by (auto simp: imported_amount_def split: sum.splits)

lemma imported_amount_cases:
  assumes "imported_amount env n = Inr a"
  shows "a = NaN \<or> js_le (Fin 0) a"
proof -
  from imported_amount_Inr [OF assms] obtain x where "a = Math_max (Fin 0) x" by blast
  then show ?thesis using Math_max_0_cases [of x] by simp
qed

lemma import_income_row_Inr:
  assumes "import_income_row env uid k n = Inr (r, k')"
  shows "\<not> nullish n \<and>
    row_id r = (if truthy (get_prop n ''id'') then get_prop n ''id'' else Str (uid k)) \<and>
    k' = (if truthy (get_prop n ''id'') then k else Suc k) \<and>
    date r = js_or (get_prop n ''date'') (Str []) \<and>
    desc r = js_or (get_prop n ''desc'') (Str []) \<and>
    imported_amount env n = Inr (amount r) \<and>
    row_notes r = js_or (get_prop n ''notes'') (Str [])"
  using assms by (auto simp: import_income_row_def id_or_uid_def split: if_splits sum.splits)

lemma import_expense_row_Inr:
  assumes "import_expense_row env uid k n = Inr (r, k')"
  shows "\<not> nullish n \<and>
    row_id r = (if truthy (get_prop n ''id'') then get_prop n ''id'' else Str (uid k)) \<and>
    k' = (if truthy (get_prop n ''id'') then k else Suc k) \<and>
    date r = js_or (get_prop n ''date'') (Str []) \<and>
    desc r = js_or (get_prop n ''desc'') (Str []) \<and>
    imported_amount env n = Inr (amount r) \<and>
    row_notes r = js_or (get_prop n ''notes'') (Str []) \<and>
    category r = js_or (get_prop n ''category'') (Str ''Other'')"
  using assms by (auto simp: import_expense_row_def id_or_uid_def split: if_splits sum.splits)

lemma map_rows_Cons_Inr:
  assumes "map_rows f k (n # ns) = Inr (rs, k')"
  obtains r k1 rs' where "f k n = Inr (r, k1)" and "map_rows f k1 ns = Inr (rs', k')"
    and "rs = r # rs'"
  using assms by (auto split: sum.splits prod.splits)

lemma map_rows_spec:
  fixes f :: "nat \<Rightarrow> jsval \<Rightarrow> exn + ('a row_scheme) \<times> nat"
  assumes step: "\<And>k n r k'. f k n = Inr (r, k') \<Longrightarrow>
      P n r \<and> row_id r = (if truthy (get_prop n ''id'') then get_prop n ''id'' else Str (uid k)) \<and>
      k' = (if truthy (get_prop n ''id'') then k else Suc k)"
  shows "map_rows f k ns = Inr (rs, k') \<Longrightarrow>
    list_all2 P ns rs \<and> k' = k + missing_ids ns \<and>
    map row_id (rows_given_ids ns rs) = map (\<lambda>j. Str (uid j)) [k..<k']"
proof (induction ns arbitrary: k rs)
  case Nil
  then show ?case by (simp add: missing_ids_def rows_given_ids_def)
next
  case (Cons n ns)
  from Cons.prems obtain r k1 rs' where f: "f k n = Inr (r, k1)"
    and rest: "map_rows f k1 ns = Inr (rs', k')" and rs: "rs = r # rs'"
    by (rule map_rows_Cons_Inr)
  from step [OF f] have P: "P n r"
    and rid: "row_id r = (if truthy (get_prop n ''id'') then get_prop n ''id'' else Str (uid k))"
    and k1: "k1 = (if truthy (get_prop n ''id'') then k else Suc k)" by simp_all
  from Cons.IH [OF rest] have ih1: "list_all2 P ns rs'" and ih2: "k' = k1 + missing_ids ns"
    and ih3: "map row_id (rows_given_ids ns rs') = map (\<lambda>j. Str (uid j)) [k1..<k']" by simp_all
  show ?case
  proof (cases "truthy (get_prop n ''id'')")
    case True
    then show ?thesis using P rs k1 ih1 ih2 ih3
      by (simp add: missing_ids_def rows_given_ids_def)
  next
    case False
    then have "k < k'" using k1 ih2 by simp
    then have "[k..<k'] = k # [Suc k..<k']" by (rule upt_conv_Cons)
    then show ?thesis using False P rs rid k1 ih1 ih2 ih3
      by (simp add: missing_ids_def rows_given_ids_def)
  qed
qed

lemma set_add_set: "set (set_add x acc) = insert x (set acc)"
  by (auto simp: set_add_def list_ex_iff SameValueZero_def)

lemma fold_set_add_set: "set (fold set_add xs acc) = set acc \<union> set xs"
  by (induction xs arbitrary: acc) (simp_all add: set_add_set)

lemma set_from_Set: "set (from_Set xs) = set xs"
  by (simp add: from_Set_def fold_set_add_set)

lemma set_add_distinct:
  "distinct (filter primitive acc) \<Longrightarrow> distinct (filter primitive (set_add x acc))"
  by (cases "primitive x") (auto simp: set_add_def list_ex_iff SameValueZero_def)

lemma fold_set_add_distinct:
  "distinct (filter primitive acc) \<Longrightarrow> distinct (filter primitive (fold set_add xs acc))"
  by (induction xs arbitrary: acc) (simp_all add: set_add_distinct)

lemma from_Set_distinct: "distinct (filter primitive (from_Set xs))"
  by (simp add: from_Set_def fold_set_add_distinct)

lemma map_String_Inr:
  "map_String env cs = Inr ss \<Longrightarrow>
   list_all2 (\<lambda>c s. \<exists>t. ToString env c = Inr t \<and> s = Str t) cs ss"
  by (induction cs arbitrary: ss) (auto split: sum.splits)

lemma import_document_Some:
  assumes "import_document env uid confirmReplace (Inr obj) = Inr (Some (inc, exps, cats))"
  obtains k k' cat where "confirmReplace" "truthy obj" "isArray (get_prop obj ''income'')" "isArray (get_prop obj ''expenses'')"
    and "map_rows (import_income_row env uid) 0 (elems (get_prop obj ''income'')) = Inr (inc, k)"
    and "map_rows (import_expense_row env uid) k (elems (get_prop obj ''expenses'')) = Inr (exps, k')"
    and "imported_cat env obj = Inr cat"
    and "cats = from_Set (cat @ map category exps)"
  using assms by (auto simp: import_document_def split: if_splits sum.splits prod.splits)

text \<open>
  C7 (as amended). When a document is accepted (it passed the check, the user confirmed,
  and no conversion threw), the page takes the imported rows and categories, and:
  a row keeps the id of its source when that is usable; the rows whose source has no
  usable id get, in document order, the results of successive calls of \<open>uid()\<close>;
  the amount of a row is \<open>Math.max(0, Number(n.amount || 0))\<close>, which is greater than or
  equal to 0, or \<open>NaN\<close> when the amount of the document does not convert to a number;
  an expense row keeps a usable category of its source and gets "Other" otherwise;
  the category list consists of the document's categories converted to strings (of the
  default list when the document has none or an empty one) together with the categories
  of the imported expense rows, and no string occurs twice in it.
\<close>

theorem import_normalises:
  assumes ok: "import_document env uid True (Inr obj) = Inr (Some (inc, exps, cats))"
  shows "onFilePicked env uid True (Loaded (Inr obj)) p
      = (p\<lparr> income := inc, expenses := exps, categories := cats \<rparr>,
         [Toast ''Import successful'' success 2500]) \<and>
    list_all2 (\<lambda>n r.
        (truthy (get_prop n ''id'') \<longrightarrow> row_id r = get_prop n ''id'') \<and>
        (\<exists>x. ToNumber env (js_or (get_prop n ''amount'') (Num (Fin 0))) = Inr x \<and>
             amount r = Math_max (Fin 0) x) \<and>
        (amount r = NaN \<or> js_le (Fin 0) (amount r)))
      (elems (get_prop obj ''income'')) inc \<and>
    list_all2 (\<lambda>n r.
        (truthy (get_prop n ''id'') \<longrightarrow> row_id r = get_prop n ''id'') \<and>
        (\<exists>x. ToNumber env (js_or (get_prop n ''amount'') (Num (Fin 0))) = Inr x \<and>
             amount r = Math_max (Fin 0) x) \<and>
        (amount r = NaN \<or> js_le (Fin 0) (amount r)) \<and>
        category r = (if truthy (get_prop n ''category'') then get_prop n ''category''
                      else Str ''Other''))
      (elems (get_prop obj ''expenses'')) exps \<and>
    map row_id (rows_given_ids (elems (get_prop obj ''income'')) inc)
      @ map row_id (rows_given_ids (elems (get_prop obj ''expenses'')) exps)
      = map (\<lambda>j. Str (uid j))
          [0 ..< missing_ids (elems (get_prop obj ''income''))
                 + missing_ids (elems (get_prop obj ''expenses''))] \<and>
    (\<exists>cat. set cats = set cat \<union> category ` set exps \<and>
       (if isArray (get_prop obj ''categories'') \<and> elems (get_prop obj ''categories'') \<noteq> []
        then list_all2 (\<lambda>c s. \<exists>t. ToString env c = Inr t \<and> s = Str t)
               (elems (get_prop obj ''categories'')) cat
        else cat = map Str DEFAULT_CATEGORIES)) \<and>
    distinct (filter primitive cats)"
proof -
  let ?P = "\<lambda>n r. (truthy (get_prop n ''id'') \<longrightarrow> row_id r = get_prop n ''id'') \<and>
        (\<exists>x. ToNumber env (js_or (get_prop n ''amount'') (Num (Fin 0))) = Inr x \<and>
             amount r = Math_max (Fin 0) x) \<and>
        (amount r = NaN \<or> js_le (Fin 0) (amount r))"
  let ?Q = "\<lambda>n r. (truthy (get_prop n ''id'') \<longrightarrow> row_id r = get_prop n ''id'') \<and>
        (\<exists>x. ToNumber env (js_or (get_prop n ''amount'') (Num (Fin 0))) = Inr x \<and>
             amount r = Math_max (Fin 0) x) \<and>
        (amount r = NaN \<or> js_le (Fin 0) (amount r)) \<and>
        category r = (if truthy (get_prop n ''category'') then get_prop n ''category''
                      else Str ''Other'')"
  from ok obtain k k' cat where
    i: "map_rows (import_income_row env uid) 0 (elems (get_prop obj ''income'')) = Inr (inc, k)"
    and e: "map_rows (import_expense_row env uid) k (elems (get_prop obj ''expenses'')) = Inr (exps, k')"
    and ic: "imported_cat env obj = Inr cat"
    and c: "cats = from_Set (cat @ map category exps)"
    by (rule import_document_Some)
  have am: "(\<exists>x. ToNumber env (js_or (get_prop n ''amount'') (Num (Fin 0))) = Inr x \<and>
             a = Math_max (Fin 0) x) \<and> (a = NaN \<or> js_le (Fin 0) a)"
    if "imported_amount env n = Inr a" for n a
    using imported_amount_Inr [OF that] Math_max_0_cases by auto
  have si: "?P n r \<and> row_id r = (if truthy (get_prop n ''id'') then get_prop n ''id'' else Str (uid k)) \<and>
      k' = (if truthy (get_prop n ''id'') then k else Suc k)"
    if "import_income_row env uid k n = Inr (r, k')" for k n r k'
    using import_income_row_Inr [OF that] am [of n "amount r"] by simp
  have se: "?Q n r \<and> row_id r = (if truthy (get_prop n ''id'') then get_prop n ''id'' else Str (uid k)) \<and>
      k' = (if truthy (get_prop n ''id'') then k else Suc k)"
    if "import_expense_row env uid k n = Inr (r, k')" for k n r k'
    using import_expense_row_Inr [OF that] am [of n "amount r"] by (simp add: js_or_def)
  from map_rows_spec [of "import_income_row env uid" ?P uid, OF si i]
  have i1: "list_all2 ?P (elems (get_prop obj ''income'')) inc"
    and i2: "k = missing_ids (elems (get_prop obj ''income''))"
    and i3: "map row_id (rows_given_ids (elems (get_prop obj ''income'')) inc)
        = map (\<lambda>j. Str (uid j)) [0..<k]" by simp_all
  from map_rows_spec [of "import_expense_row env uid" ?Q uid, OF se e]
  have e1: "list_all2 ?Q (elems (get_prop obj ''expenses'')) exps"
    and e2: "k' = k + missing_ids (elems (get_prop obj ''expenses''))"
    and e3: "map row_id (rows_given_ids (elems (get_prop obj ''expenses'')) exps)
        = map (\<lambda>j. Str (uid j)) [k..<k']" by simp_all
  have "[0..<k'] = [0..<k] @ [k..<k']"
    using e2 by (metis le_add1 upt_add_eq_append zero_le)
  then have ids: "map row_id (rows_given_ids (elems (get_prop obj ''income'')) inc)
      @ map row_id (rows_given_ids (elems (get_prop obj ''expenses'')) exps)
      = map (\<lambda>j. Str (uid j))
          [0 ..< missing_ids (elems (get_prop obj ''income''))
                 + missing_ids (elems (get_prop obj ''expenses''))]"
    using i2 i3 e2 e3 by simp
  have s1: "set cats = set cat \<union> category ` set exps"
    unfolding c set_from_Set by simp
  have s2: "if isArray (get_prop obj ''categories'') \<and> elems (get_prop obj ''categories'') \<noteq> []
        then list_all2 (\<lambda>c s. \<exists>t. ToString env c = Inr t \<and> s = Str t)
               (elems (get_prop obj ''categories'')) cat
        else cat = map Str DEFAULT_CATEGORIES"
    using ic map_String_Inr [of env "elems (get_prop obj ''categories'')" cat]
    by (auto simp: imported_cat_def split: if_splits)
  from s1 s2 have s: "\<exists>cat. set cats = set cat \<union> category ` set exps \<and>
       (if isArray (get_prop obj ''categories'') \<and> elems (get_prop obj ''categories'') \<noteq> []
        then list_all2 (\<lambda>c s. \<exists>t. ToString env c = Inr t \<and> s = Str t)
               (elems (get_prop obj ''categories'')) cat
        else cat = map Str DEFAULT_CATEGORIES)" by blast
  have d: "distinct (filter primitive cats)"
    unfolding c by (rule from_Set_distinct)
  have f: "onFilePicked env uid True (Loaded (Inr obj)) p
      = (p\<lparr> income := inc, expenses := exps, categories := cats \<rparr>,
         [Toast ''Import successful'' success 2500])"
    using ok by (simp add: onFilePicked_def)
  from f i1 e1 ids s d show ?thesis by blast
qed

theorem import_normalises_witness:
  "import_document example_env example_uid True (Inr example_document)
     = Inr (Some ([\<lparr> row_id = Str ''id-0'', date = Str ''2024-01-01'', desc = Str [],
                      amount = Fin 3000000, row_notes = Str [] \<rparr>,
                   \<lparr> row_id = Str ''x'', date = Str ''2024-01-05'', desc = Str [],
                      amount = Fin 0, row_notes = Str [] \<rparr>],
                  [\<lparr> row_id = Str ''id-1'', date = Str ''2024-01-02'', desc = Str [],
                      amount = Fin 1200, row_notes = Str [], category = Str ''Other'' \<rparr>,
                   \<lparr> row_id = Str ''y'', date = Str ''2024-01-03'', desc = Str [],
                      amount = Fin 9000, row_notes = Str [], category = Str ''Fun'' \<rparr>],
                  [Str ''Fun'', Str ''Rent'', Str ''Other''])) \<and>
   onFilePicked example_env example_uid True (Loaded (Inr example_document)) example_page
     = (example_page
          \<lparr> income := [\<lparr> row_id = Str ''id-0'', date = Str ''2024-01-01'', desc = Str [],
                           amount = Fin 3000000, row_notes = Str [] \<rparr>,
                        \<lparr> row_id = Str ''x'', date = Str ''2024-01-05'', desc = Str [],
                           amount = Fin 0, row_notes = Str [] \<rparr>],
            expenses := [\<lparr> row_id = Str ''id-1'', date = Str ''2024-01-02'', desc = Str [],
                             amount = Fin 1200, row_notes = Str [], category = Str ''Other'' \<rparr>,
                          \<lparr> row_id = Str ''y'', date = Str ''2024-01-03'', desc = Str [],
                             amount = Fin 9000, row_notes = Str [], category = Str ''Fun'' \<rparr>],
            categories := [Str ''Fun'', Str ''Rent'', Str ''Other''] \<rparr>,
        [Toast ''Import successful'' success 2500])"
proof -
  have h: "import_document example_env example_uid True (Inr example_document)
     = Inr (Some ([\<lparr> row_id = Str ''id-0'', date = Str ''2024-01-01'', desc = Str [],
                      amount = Fin 3000000, row_notes = Str [] \<rparr>,
                   \<lparr> row_id = Str ''x'', date = Str ''2024-01-05'', desc = Str [],
                      amount = Fin 0, row_notes = Str [] \<rparr>],
                  [\<lparr> row_id = Str ''id-1'', date = Str ''2024-01-02'', desc = Str [],
                      amount = Fin 1200, row_notes = Str [], category = Str ''Other'' \<rparr>,
                   \<lparr> row_id = Str ''y'', date = Str ''2024-01-03'', desc = Str [],
                      amount = Fin 9000, row_notes = Str [], category = Str ''Fun'' \<rparr>],
                  [Str ''Fun'', Str ''Rent'', Str ''Other'']))"
    by (simp add: import_document_def example_document_def import_income_row_def
        import_expense_row_def id_or_uid_def imported_amount_def imported_cat_def js_or_def
        Math_max_def truthy_num_def from_Set_def set_add_def SameValueZero_def example_env_def
        example_StringToNumber_def example_uid_def digit_char_def)
  from import_normalises [OF h, of example_page] h show ?thesis by blast
qed

text \<open>
  The claim as stated fails on an amount that does not convert to a number: the text
  \<open>abc\<close> converts to \<open>NaN\<close>, \<open>Math.max(0, NaN)\<close> is \<open>NaN\<close>, and the imported row has an
  amount that is not greater than or equal to 0. (An amount that cannot be converted at
  all, such as an object with a property \<open>toString\<close>, makes the import fail instead.)
\<close>

theorem import_normalises_counterexample:
  "onFilePicked example_env example_uid True
     (Loaded (Inr (Obj [(''income'', Arr [Obj [(''id'', Str ''x''), (''amount'', Str ''abc'')]]),
                        (''expenses'', Arr [])])))
     example_page
     = (example_page
          \<lparr> income := [\<lparr> row_id = Str ''x'', date = Str [], desc = Str [], amount = NaN,
                           row_notes = Str [] \<rparr>],
            expenses := [],
            categories := map Str DEFAULT_CATEGORIES \<rparr>,
        [Toast ''Import successful'' success 2500]) \<and>
   \<not> js_le (Fin 0) NaN \<and>
   onFilePicked example_env example_uid True
     (Loaded (Inr (Obj [(''income'',
                          Arr [Obj [(''id'', Str ''x''),
                                    (''amount'', Obj [(''toString'', Num (Fin 1))])]]),
                        (''expenses'', Arr [])])))
     example_page
     = (example_page,
        [Toast ''Import failed: Cannot convert object to primitive value'' error 5000])"
  by (simp add: onFilePicked_def import_document_def import_income_row_def
      import_expense_row_def id_or_uid_def imported_amount_def imported_cat_def js_or_def
      Math_max_def truthy_num_def from_Set_def set_add_def SameValueZero_def example_env_def
      example_StringToNumber_def example_uid_def digit_char_def DEFAULT_CATEGORIES_def
      no_primitive_def)

section \<open>Adding a record\<close>

lemma Math_round_integer:
  "isFinite x \<Longrightarrow> js_gt (Math_round x) (Fin 0) \<Longrightarrow> positive_integer (Math_round x)"
  by (cases x) (simp_all add: js_gt_def)

lemma onAddIncome_rejected:
  "(request (onAddIncome env i reply p) = None) =
     (trim env (form_date (incomeForm p)) = [] \<or>
      \<not> js_gt (Math_round (StringToNumber env (form_amount (incomeForm p)))) (Fin 0))"
  by (auto simp: onAddIncome_def Let_def split: server_reply.splits)

lemma onAddIncome_unchanged:
  "request (onAddIncome env i reply p) = None \<or> \<not> confirmed reply \<Longrightarrow>
   page_after (onAddIncome env i reply p) = p"
  by (cases reply) (auto simp: onAddIncome_def Let_def)

lemma onAddIncome_appended:
  "request (onAddIncome env i reply p) \<noteq> None \<Longrightarrow> confirmed reply \<Longrightarrow>
   income (page_after (onAddIncome env i reply p))
     = income p @ [\<lparr> row_id = Str i, date = Str (trim env (form_date (incomeForm p))),
                      desc = Str (if trim env (form_desc (incomeForm p)) = [] then ''Income''
                                  else trim env (form_desc (incomeForm p))),
                      amount = Math_round (StringToNumber env (form_amount (incomeForm p))),
                      row_notes = Str (trim env (form_notes (incomeForm p))) \<rparr>] \<and>
   expenses (page_after (onAddIncome env i reply p)) = expenses p \<and>
   request (onAddIncome env i reply p)
     = Some (json_roundtrip (income_row_json
         \<lparr> row_id = Str i, date = Str (trim env (form_date (incomeForm p))),
           desc = Str (if trim env (form_desc (incomeForm p)) = [] then ''Income''
                       else trim env (form_desc (incomeForm p))),
           amount = Math_round (StringToNumber env (form_amount (incomeForm p))),
           row_notes = Str (trim env (form_notes (incomeForm p))) \<rparr>))"
  by (cases reply) (auto simp: onAddIncome_def Let_def split: if_splits)

lemma onAddExpense_rejected:
  "(request (onAddExpense env i reply p) = None) =
     (trim env (form_date (expenseForm p)) = [] \<or>
      \<not> js_gt (Math_round (StringToNumber env (form_amount (expenseForm p)))) (Fin 0))"
  by (auto simp: onAddExpense_def Let_def split: server_reply.splits)

lemma onAddExpense_unchanged:
  "request (onAddExpense env i reply p) = None \<or> \<not> confirmed reply \<Longrightarrow>
   page_after (onAddExpense env i reply p) = p"
  by (cases reply) (auto simp: onAddExpense_def Let_def)

lemma onAddExpense_appended:
  "request (onAddExpense env i reply p) \<noteq> None \<Longrightarrow> confirmed reply \<Longrightarrow>
   expenses (page_after (onAddExpense env i reply p))
     = expenses p @ [\<lparr> row_id = Str i, date = Str (trim env (form_date (expenseForm p))),
                      desc = Str (if trim env (form_desc (expenseForm p)) = [] then ''Expense''
                                  else trim env (form_desc (expenseForm p))),
                      amount = Math_round (StringToNumber env (form_amount (expenseForm p))),
                      row_notes = Str (trim env (form_notes (expenseForm p))),
                      category = Str (if trim env (form_category (expenseForm p)) = [] then ''Other''
                                      else trim env (form_category (expenseForm p))) \<rparr>] \<and>
   income (page_after (onAddExpense env i reply p)) = income p \<and>
   request (onAddExpense env i reply p)
     = Some (json_roundtrip (expense_row_json
         \<lparr> row_id = Str i, date = Str (trim env (form_date (expenseForm p))),
           desc = Str (if trim env (form_desc (expenseForm p)) = [] then ''Expense''
                       else trim env (form_desc (expenseForm p))),
           amount = Math_round (StringToNumber env (form_amount (expenseForm p))),
           row_notes = Str (trim env (form_notes (expenseForm p))),
           category = Str (if trim env (form_category (expenseForm p)) = [] then ''Other''
                           else trim env (form_category (expenseForm p))) \<rparr>))"
  by (cases reply) (auto simp: onAddExpense_def Let_def split: if_splits)

lemma onAddIncome_ids:
  "request (onAddIncome env i reply p) \<noteq> None \<Longrightarrow> confirmed reply \<Longrightarrow>
   ids (page_after (onAddIncome env i reply p))
     = map row_id (income p) @ [Str i] @ map row_id (expenses p)"
  using onAddIncome_appended [of env i reply p] by (simp add: ids_def)

lemma onAddExpense_ids:
  "request (onAddExpense env i reply p) \<noteq> None \<Longrightarrow> confirmed reply \<Longrightarrow>
   ids (page_after (onAddExpense env i reply p))
     = map row_id (income p) @ map row_id (expenses p) @ [Str i]"
  using onAddExpense_appended [of env i reply p] by (simp add: ids_def)

text \<open>
  C6 (as amended). A submission of the income or of the expense form is rejected, with no
  request sent and the page unchanged, exactly when the trimmed date is empty or the
  amount field, converted to a number and rounded to the nearest integer, is not greater
  than 0. The rounded amount of an accepted record is a positive integer whenever the
  field converts to a finite number. An accepted record carries the id that \<open>uid()\<close>
  returned, the trimmed date, the trimmed description or "Income" (income) or "Expense"
  (expense) when that is blank, the trimmed category or "Other" when that is blank, and
  the rounded amount; it is appended to the rows of the page when the server confirmed
  success, and the page is unchanged otherwise. The ids of the rows of the page stay
  pairwise different whenever \<open>uid()\<close> returns a value that no row of the page carries.
\<close>

theorem add_record_spec:
  "(request (onAddIncome env i reply p) = None \<longleftrightarrow>
      trim env (form_date (incomeForm p)) = [] \<or>
      \<not> js_gt (Math_round (StringToNumber env (form_amount (incomeForm p)))) (Fin 0)) \<and>
   (request (onAddIncome env i reply p) = None \<or> \<not> confirmed reply \<longrightarrow>
      page_after (onAddIncome env i reply p) = p) \<and>
   (request (onAddIncome env i reply p) \<noteq> None \<and> confirmed reply \<longrightarrow>
      income (page_after (onAddIncome env i reply p))
        = income p @ [\<lparr> row_id = Str i, date = Str (trim env (form_date (incomeForm p))),
                         desc = Str (if trim env (form_desc (incomeForm p)) = [] then ''Income''
                                     else trim env (form_desc (incomeForm p))),
                         amount = Math_round (StringToNumber env (form_amount (incomeForm p))),
                         row_notes = Str (trim env (form_notes (incomeForm p))) \<rparr>]) \<and>
   (isFinite (StringToNumber env (form_amount (incomeForm p))) \<and>
    request (onAddIncome env i reply p) \<noteq> None \<longrightarrow>
      positive_integer (Math_round (StringToNumber env (form_amount (incomeForm p))))) \<and>
   (request (onAddIncome env i reply p) \<noteq> None \<and> confirmed reply \<and>
    distinct (ids p) \<and> Str i \<notin> set (ids p) \<longrightarrow>
      distinct (ids (page_after (onAddIncome env i reply p)))) \<and>
   (request (onAddExpense env i reply p) = None \<longleftrightarrow>
      trim env (form_date (expenseForm p)) = [] \<or>
      \<not> js_gt (Math_round (StringToNumber env (form_amount (expenseForm p)))) (Fin 0)) \<and>
   (request (onAddExpense env i reply p) = None \<or> \<not> confirmed reply \<longrightarrow>
      page_after (onAddExpense env i reply p) = p) \<and>
   (request (onAddExpense env i reply p) \<noteq> None \<and> confirmed reply \<longrightarrow>
      expenses (page_after (onAddExpense env i reply p))
        = expenses p @ [\<lparr> row_id = Str i, date = Str (trim env (form_date (expenseForm p))),
                           desc = Str (if trim env (form_desc (expenseForm p)) = [] then ''Expense''
                                       else trim env (form_desc (expenseForm p))),
                           amount = Math_round (StringToNumber env (form_amount (expenseForm p))),
                           row_notes = Str (trim env (form_notes (expenseForm p))),
                           category = Str (if trim env (form_category (expenseForm p)) = []
                                           then ''Other''
                                           else trim env (form_category (expenseForm p))) \<rparr>]) \<and>
   (isFinite (StringToNumber env (form_amount (expenseForm p))) \<and>
    request (onAddExpense env i reply p) \<noteq> None \<longrightarrow>
      positive_integer (Math_round (StringToNumber env (form_amount (expenseForm p))))) \<and>
   (request (onAddExpense env i reply p) \<noteq> None \<and> confirmed reply \<and>
    distinct (ids p) \<and> Str i \<notin> set (ids p) \<longrightarrow>
      distinct (ids (page_after (onAddExpense env i reply p))))"
proof -
  have a: "request (onAddIncome env i reply p) \<noteq> None \<Longrightarrow>
      js_gt (Math_round (StringToNumber env (form_amount (incomeForm p)))) (Fin 0)"
    by (simp add: onAddIncome_rejected)
  have b: "request (onAddExpense env i reply p) \<noteq> None \<Longrightarrow>
      js_gt (Math_round (StringToNumber env (form_amount (expenseForm p)))) (Fin 0)"
    by (simp add: onAddExpense_rejected)
  have c: "distinct (ids (page_after (onAddIncome env i reply p)))"
    if "request (onAddIncome env i reply p) \<noteq> None" "confirmed reply"
      "distinct (ids p)" "Str i \<notin> set (ids p)"
  proof -
    from that(1,2) have "ids (page_after (onAddIncome env i reply p))
        = map row_id (income p) @ [Str i] @ map row_id (expenses p)"
      by (rule onAddIncome_ids)
    with that(3,4) show ?thesis by (auto simp: ids_def)
  qed
  have d: "distinct (ids (page_after (onAddExpense env i reply p)))"
    if "request (onAddExpense env i reply p) \<noteq> None" "confirmed reply"
      "distinct (ids p)" "Str i \<notin> set (ids p)"
  proof -
    from that(1,2) have "ids (page_after (onAddExpense env i reply p))
        = map row_id (income p) @ map row_id (expenses p) @ [Str i]"
      by (rule onAddExpense_ids)
    with that(3,4) show ?thesis by (auto simp: ids_def)
  qed
  show ?thesis
    using onAddIncome_rejected [of env i reply p] onAddIncome_unchanged [of env i reply p]
      onAddIncome_appended [of env i reply p] onAddExpense_rejected [of env i reply p]
      onAddExpense_unchanged [of env i reply p] onAddExpense_appended [of env i reply p]
      a b c d Math_round_integer [of "StringToNumber env (form_amount (incomeForm p))"]
      Math_round_integer [of "StringToNumber env (form_amount (expenseForm p))"]
    by blast
qed

theorem add_record_spec_witness:
  "request (onAddIncome example_env ''id-n'' (Response True None) example_page) \<noteq> None \<and>
   confirmed (Response True None) \<and>
   income (page_after (onAddIncome example_env ''id-n'' (Response True None) example_page))
     = income example_page
       @ [\<lparr> row_id = Str ''id-n'', date = Str ''2024-01-03'', desc = Str ''Income'',
             amount = Fin 1500000, row_notes = Str [] \<rparr>] \<and>
   positive_integer (Fin 1500000) \<and>
   distinct (ids example_page) \<and> Str ''id-n'' \<notin> set (ids example_page) \<and>
   distinct (ids (page_after (onAddIncome example_env ''id-n'' (Response True None)
     example_page))) \<and>
   expenses (page_after (onAddExpense example_env ''id-n'' (Response True None) example_page))
     = expenses example_page
       @ [\<lparr> row_id = Str ''id-n'', date = Str ''2024-01-03'', desc = Str ''Lunch'',
             amount = Fin 9000, row_notes = Str [], category = Str ''Other'' \<rparr>] \<and>
   page_after (onAddExpense example_env ''id-n'' (Response False None) example_page)
     = example_page"
  using add_record_spec [where env = example_env and i = "''id-n''"
      and reply = "Response True None" and p = example_page]
    add_record_spec [where env = example_env and i = "''id-n''"
      and reply = "Response False None" and p = example_page]
  by (simp add: onAddIncome_def onAddExpense_def example_page_def example_env_def
      example_StringToNumber_def example_trim_def white_space_def js_gt_def Let_def
      floor_numeral_quotient ids_def)

text \<open>
  The claim as stated fails in two ways. On an amount field that converts to \<open>+Infinity\<close>
  the check \<open>amount > 0\<close> passes, the request is sent, and on confirmation a record whose
  amount is not an integer joins the rows. And nothing compares the generated id with
  the ids in use: when \<open>uid()\<close> returns the id of a row of the page (the same millisecond
  and the same random digits, or an id that an imported row carries), two rows have that
  id.
\<close>

theorem add_record_counterexample:
  "request (onAddIncome example_env ''id-n'' (Response True None)
     (example_page\<lparr> incomeForm := \<lparr> form_date = ''2024-01-03'', form_desc = [],
                                         form_amount = ''Infinity'', form_notes = [] \<rparr> \<rparr>)) \<noteq> None \<and>
   income (page_after (onAddIncome example_env ''id-n'' (Response True None)
     (example_page\<lparr> incomeForm := \<lparr> form_date = ''2024-01-03'', form_desc = [],
                                         form_amount = ''Infinity'', form_notes = [] \<rparr> \<rparr>)))
     = income example_page
       @ [\<lparr> row_id = Str ''id-n'', date = Str ''2024-01-03'', desc = Str ''Income'',
             amount = PInf, row_notes = Str [] \<rparr>] \<and>
   \<not> positive_integer PInf \<and>
   map row_id (income (page_after (onAddIncome example_env ''id-lrz5a8kq-i'' (Response True None)
     (example_page\<lparr> income := [\<lparr> row_id = Str ''id-lrz5a8kq-i'', date = Str ''2024-01-01'',
                                    desc = Str ''Income'', amount = Fin 3000000,
                                    row_notes = Str [] \<rparr>] \<rparr>))))
     = [Str ''id-lrz5a8kq-i'', Str ''id-lrz5a8kq-i'']"
  by (simp add: onAddIncome_def onAddExpense_def example_page_def example_env_def
      example_StringToNumber_def example_trim_def white_space_def js_gt_def Let_def
      floor_numeral_quotient)

section \<open>Amounts of accepted records\<close>

lemma imported_amounts:
  fixes f :: "nat \<Rightarrow> jsval \<Rightarrow> exn + ('a row_scheme) \<times> nat"
  assumes step: "\<And>k n r k'. f k n = Inr (r, k') \<Longrightarrow> imported_amount env n = Inr (amount r)"
  shows "map_rows f k ns = Inr (rs, k') \<Longrightarrow>
    \<forall>r \<in> set rs. amount r = NaN \<or> js_le (Fin 0) (amount r)"
proof (induction ns arbitrary: k rs)
  case Nil
  then show ?case by simp
next
  case (Cons n ns)
  from Cons.prems obtain r k1 rs' where f: "f k n = Inr (r, k1)"
    and rest: "map_rows f k1 ns = Inr (rs', k')" and rs: "rs = r # rs'"
    by (rule map_rows_Cons_Inr)
  have "amount r = NaN \<or> js_le (Fin 0) (amount r)"
    using step [OF f] by (rule imported_amount_cases)
  with Cons.IH [OF rest] rs show ?case by simp
qed

text \<open>
  C9 (as amended). A record that the add-income or the add-expense form appends to the
  rows of the page has an amount greater than 0. A record that the import routine brings
  in has the amount \<open>Math.max(0, Number(n.amount || 0))\<close>: greater than or equal to 0, or
  \<open>NaN\<close> when the amount of the document does not convert to a number.
\<close>

theorem accepted_amounts:
  "(income (page_after (onAddIncome env i reply p)) = income p \<or>
    (\<exists>r. income (page_after (onAddIncome env i reply p)) = income p @ [r] \<and>
         js_gt (amount r) (Fin 0))) \<and>
   (expenses (page_after (onAddExpense env i reply p)) = expenses p \<or>
    (\<exists>r. expenses (page_after (onAddExpense env i reply p)) = expenses p @ [r] \<and>
         js_gt (amount r) (Fin 0))) \<and>
   (import_document env uid confirmReplace parsed = Inr (Some (inc, exps, cats)) \<longrightarrow>
      (\<forall>r \<in> set inc. amount r = NaN \<or> js_le (Fin 0) (amount r)) \<and>
      (\<forall>r \<in> set exps. amount r = NaN \<or> js_le (Fin 0) (amount r)))"
proof (intro conjI impI)
  show "income (page_after (onAddIncome env i reply p)) = income p \<or>
    (\<exists>r. income (page_after (onAddIncome env i reply p)) = income p @ [r] \<and>
         js_gt (amount r) (Fin 0))"
  proof (cases "request (onAddIncome env i reply p) = None \<or> \<not> confirmed reply")
    case True
    then show ?thesis by (simp add: onAddIncome_unchanged)
  next
    case False
    then have "js_gt (Math_round (StringToNumber env (form_amount (incomeForm p)))) (Fin 0)"
      by (simp add: onAddIncome_rejected)
    then show ?thesis using False onAddIncome_appended [of env i reply p] by simp
  qed
  show "expenses (page_after (onAddExpense env i reply p)) = expenses p \<or>
    (\<exists>r. expenses (page_after (onAddExpense env i reply p)) = expenses p @ [r] \<and>
         js_gt (amount r) (Fin 0))"
  proof (cases "request (onAddExpense env i reply p) = None \<or> \<not> confirmed reply")
    case True
    then show ?thesis by (simp add: onAddExpense_unchanged)
  next
    case False
    then have "js_gt (Math_round (StringToNumber env (form_amount (expenseForm p)))) (Fin 0)"
      by (simp add: onAddExpense_rejected)
    then show ?thesis using False onAddExpense_appended [of env i reply p] by simp
  qed
next
  assume ok: "import_document env uid confirmReplace parsed = Inr (Some (inc, exps, cats))"
  then obtain obj where p: "parsed = Inr obj"
    by (cases parsed) (simp_all add: import_document_def)
  from ok [unfolded p] obtain k k' where
    i: "map_rows (import_income_row env uid) 0 (elems (get_prop obj ''income'')) = Inr (inc, k)"
    and e: "map_rows (import_expense_row env uid) k (elems (get_prop obj ''expenses'')) = Inr (exps, k')"
    by (rule import_document_Some)
  have si: "imported_amount env n = Inr (amount r)"
    if "import_income_row env uid k n = Inr (r, k')" for k n r k'
    using import_income_row_Inr [OF that] by simp
  have se: "imported_amount env n = Inr (amount r)"
    if "import_expense_row env uid k n = Inr (r, k')" for k n r k'
    using import_expense_row_Inr [OF that] by simp
  show "\<forall>r \<in> set inc. amount r = NaN \<or> js_le (Fin 0) (amount r)"
    using si i by (rule imported_amounts)
  show "\<forall>r \<in> set exps. amount r = NaN \<or> js_le (Fin 0) (amount r)"
    using se e by (rule imported_amounts)
qed

theorem accepted_amounts_witness:
  "income (page_after (onAddIncome example_env ''id-n'' (Response True None) example_page))
     = income example_page
       @ [\<lparr> row_id = Str ''id-n'', date = Str ''2024-01-03'', desc = Str ''Income'',
             amount = Fin 1500000, row_notes = Str [] \<rparr>] \<and>
   js_gt (Fin 1500000) (Fin 0) \<and>
   import_document example_env example_uid True (Inr example_document)
     = Inr (Some ([\<lparr> row_id = Str ''id-0'', date = Str ''2024-01-01'', desc = Str [],
                      amount = Fin 3000000, row_notes = Str [] \<rparr>,
                   \<lparr> row_id = Str ''x'', date = Str ''2024-01-05'', desc = Str [],
                      amount = Fin 0, row_notes = Str [] \<rparr>],
                  [\<lparr> row_id = Str ''id-1'', date = Str ''2024-01-02'', desc = Str [],
                      amount = Fin 1200, row_notes = Str [], category = Str ''Other'' \<rparr>,
                   \<lparr> row_id = Str ''y'', date = Str ''2024-01-03'', desc = Str [],
                      amount = Fin 9000, row_notes = Str [], category = Str ''Fun'' \<rparr>],
                  [Str ''Fun'', Str ''Rent'', Str ''Other''])) \<and>
   js_le (Fin 0) (Fin 3000000) \<and> js_le (Fin 0) (Fin 0)"
proof -
  have h: "import_document example_env example_uid True (Inr example_document)
     = Inr (Some ([\<lparr> row_id = Str ''id-0'', date = Str ''2024-01-01'', desc = Str [],
                      amount = Fin 3000000, row_notes = Str [] \<rparr>,
                   \<lparr> row_id = Str ''x'', date = Str ''2024-01-05'', desc = Str [],
                      amount = Fin 0, row_notes = Str [] \<rparr>],
                  [\<lparr> row_id = Str ''id-1'', date = Str ''2024-01-02'', desc = Str [],
                      amount = Fin 1200, row_notes = Str [], category = Str ''Other'' \<rparr>,
                   \<lparr> row_id = Str ''y'', date = Str ''2024-01-03'', desc = Str [],
                      amount = Fin 9000, row_notes = Str [], category = Str ''Fun'' \<rparr>],
                  [Str ''Fun'', Str ''Rent'', Str ''Other'']))"
    by (simp add: import_document_def example_document_def import_income_row_def
        import_expense_row_def id_or_uid_def imported_amount_def imported_cat_def js_or_def
        Math_max_def truthy_num_def from_Set_def set_add_def SameValueZero_def example_env_def
        example_StringToNumber_def example_uid_def digit_char_def)
  have a: "income (page_after (onAddIncome example_env ''id-n'' (Response True None) example_page))
     = income example_page
       @ [\<lparr> row_id = Str ''id-n'', date = Str ''2024-01-03'', desc = Str ''Income'',
             amount = Fin 1500000, row_notes = Str [] \<rparr>]"
    by (simp add: onAddIncome_def onAddExpense_def example_page_def example_env_def
      example_StringToNumber_def example_trim_def white_space_def js_gt_def Let_def
      floor_numeral_quotient)
  from h a accepted_amounts [where env = example_env and i = "''id-n''"
      and reply = "Response True None" and p = example_page and uid = example_uid
      and confirmReplace = True and parsed = "Inr example_document"]
  show ?thesis by (simp add: js_gt_def)
qed

text \<open>
  The claim as stated fails on the import: the second income row of the example document
  has the amount -500, and the imported record has the amount 0, which is not greater
  than 0.
\<close>

theorem accepted_amounts_counterexample:
  "income (fst (onFilePicked example_env example_uid True (Loaded (Inr example_document))
     example_page))
     = [\<lparr> row_id = Str ''id-0'', date = Str ''2024-01-01'', desc = Str [],
           amount = Fin 3000000, row_notes = Str [] \<rparr>,
        \<lparr> row_id = Str ''x'', date = Str ''2024-01-05'', desc = Str [],
           amount = Fin 0, row_notes = Str [] \<rparr>] \<and>
   \<not> js_gt (Fin 0) (Fin 0)"
  by (simp add: onFilePicked_def import_document_def example_document_def
      import_income_row_def import_expense_row_def id_or_uid_def imported_amount_def
      imported_cat_def js_or_def Math_max_def truthy_num_def from_Set_def set_add_def
      SameValueZero_def example_env_def example_StringToNumber_def example_uid_def
      digit_char_def js_gt_def)

section \<open>Export followed by import\<close>

lemma nonblank_iff: "nonblank v \<longleftrightarrow> (\<exists>s. v = Str s \<and> s \<noteq> [])"
  by (cases v) simp_all

lemma is_string_iff: "is_string v \<longleftrightarrow> (\<exists>s. v = Str s)"
  by (cases v) simp_all

lemma finite_nonneg_iff: "finite_nonneg x \<longleftrightarrow> (\<exists>a. x = Fin a \<and> 0 \<le> a)"
  by (cases x) simp_all

lemma roundtrip_income_row:
  fixes r :: row
  assumes "typed_row r"
  shows "import_income_row env uid k (json_roundtrip (income_row_json r))
     = Inr (default_notes r, k)"
proof -
  from assms obtain i d x a where f: "row_id r = Str i" "i \<noteq> []" "date r = Str d"
    "desc r = Str x" "amount r = Fin a" "0 \<le> a"
    and n: "row_notes r = Undefined \<or> (\<exists>s. row_notes r = Str s)"
    by (auto simp: typed_row_def nonblank_iff is_string_iff finite_nonneg_iff)
  from n show ?thesis
  proof
    assume "row_notes r = Undefined"
    with f show ?thesis
      by (cases r) (auto simp: income_row_json_def import_income_row_def id_or_uid_def
          imported_amount_def default_notes_def js_or_def Math_max_def truthy_num_def)
  next
    assume "\<exists>s. row_notes r = Str s"
    then obtain s where "row_notes r = Str s" ..
    with f show ?thesis
      by (cases r) (auto simp: income_row_json_def import_income_row_def id_or_uid_def
          imported_amount_def default_notes_def js_or_def Math_max_def truthy_num_def)
  qed
qed

lemma roundtrip_expense_row:
  fixes r :: expense_row
  assumes "typed_row r" and "nonblank (category r)"
  shows "import_expense_row env uid k (json_roundtrip (expense_row_json r))
     = Inr (default_notes r, k)"
proof -
  from assms obtain i d x a c where f: "row_id r = Str i" "i \<noteq> []" "date r = Str d"
    "desc r = Str x" "amount r = Fin a" "0 \<le> a" "category r = Str c" "c \<noteq> []"
    and n: "row_notes r = Undefined \<or> (\<exists>s. row_notes r = Str s)"
    by (auto simp: typed_row_def nonblank_iff is_string_iff finite_nonneg_iff)
  from n show ?thesis
  proof
    assume "row_notes r = Undefined"
    with f show ?thesis
      by (cases r) (auto simp: expense_row_json_def import_expense_row_def id_or_uid_def
          imported_amount_def default_notes_def js_or_def Math_max_def truthy_num_def)
  next
    assume "\<exists>s. row_notes r = Str s"
    then obtain s where "row_notes r = Str s" ..
    with f show ?thesis
      by (cases r) (auto simp: expense_row_json_def import_expense_row_def id_or_uid_def
          imported_amount_def default_notes_def js_or_def Math_max_def truthy_num_def)
  qed
qed

lemma map_rows_roundtrip:
  assumes "\<And>r k. r \<in> set rs \<Longrightarrow> f k (g r) = Inr (h r, k)"
  shows "map_rows f k (map g rs) = Inr (map h rs, k)"
  using assms by (induction rs) simp_all

lemma exported_income:
  "get_prop (json_roundtrip (exportJSON ts p)) ''income''
     = Arr (map (\<lambda>r. json_roundtrip (income_row_json r)) (income p))"
  by (simp add: exportJSON_def income_row_json_def comp_def)

lemma exported_expenses:
  "get_prop (json_roundtrip (exportJSON ts p)) ''expenses''
     = Arr (map (\<lambda>r. json_roundtrip (expense_row_json r)) (expenses p))"
  by (simp add: exportJSON_def expense_row_json_def comp_def)

lemma exported_truthy: "truthy (json_roundtrip (exportJSON ts p))"
  by (simp add: exportJSON_def)

lemma ToString_json_roundtrip:
  "ToString env v = Inr s \<Longrightarrow> \<exists>t. ToString env (json_roundtrip v) = Inr t"
  and ToStrings_json_roundtrip:
  "ToStrings env vs = Inr ss \<Longrightarrow>
     \<exists>ts. ToStrings env (map (\<lambda>x. if x = Undefined then Null else json_roundtrip x) vs)
            = Inr ts"
proof (induction env v and env vs arbitrary: s and ss rule: ToString_ToStrings.induct)
  case (6 env xs)
  from 6(2) obtain us where "ToStrings env xs = Inr us" by (auto split: sum.splits)
  from 6(1) [OF this] show ?case by auto
next
  case (7 env kvs)
  from 7 have "''toString'' \<notin> set (map fst kvs)" by (auto split: if_splits)
  then have "''toString'' \<notin> set (map fst (map (\<lambda>kv. (fst kv, json_roundtrip (snd kv)))
      (filter (\<lambda>kv. snd kv \<noteq> Undefined) kvs)))"
    by (auto simp: comp_def)
  then show ?case by simp
next
  case (9 env x xs)
  from 9(3) obtain u us where u: "(if nullish x then Inr [] else ToString env x) = Inr u"
    and us: "ToStrings env xs = Inr us"
    by (auto split: sum.splits)
  from 9(2) [OF u us] obtain ts where
    ts: "ToStrings env (map (\<lambda>x. if x = Undefined then Null else json_roundtrip x) xs) = Inr ts"
    by blast
  have "\<exists>t. (if nullish (if x = Undefined then Null else json_roundtrip x) then Inr []
             else ToString env (if x = Undefined then Null else json_roundtrip x)) = Inr t"
  proof (cases "nullish x")
    case True
    then show ?thesis by (cases x) simp_all
  next
    case False
    with u have "ToString env x = Inr u" by simp
    with 9(1) [OF False] obtain t where "ToString env (json_roundtrip x) = Inr t" by blast
    with False show ?thesis by (cases x) auto
  qed
  with ts show ?case by auto
qed simp_all

lemma map_String_total:
  "(\<And>c. c \<in> set cs \<Longrightarrow> \<exists>s. ToString env (g c) = Inr s) \<Longrightarrow>
   \<exists>ss. map_String env (map g cs) = Inr ss"
proof (induction cs)
  case Nil
  then show ?case by simp
next
  case (Cons c cs)
  from Cons.prems [of c] obtain s where s: "ToString env (g c) = Inr s" by auto
  from Cons.IH Cons.prems obtain ss where "map_String env (map g cs) = Inr ss" by auto
  with s show ?case by simp
qed

lemma exported_categories:
  "get_prop (json_roundtrip (exportJSON ts p)) ''categories''
     = Arr (map (\<lambda>x. if x = Undefined then Null else json_roundtrip x) (categories p))"
  by (simp add: exportJSON_def)

lemma imported_cat_exported:
  assumes "\<forall>c \<in> set (categories p). \<exists>s. ToString env c = Inr s"
  shows "\<exists>cat. imported_cat env (json_roundtrip (exportJSON ts p)) = Inr cat"
proof -
  have "\<exists>t. ToString env (if c = Undefined then Null else json_roundtrip c) = Inr t"
    if "c \<in> set (categories p)" for c
  proof -
    from assms that obtain s where "ToString env c = Inr s" by blast
    from ToString_json_roundtrip [OF this] show ?thesis by (cases "c = Undefined") simp_all
  qed
  from map_String_total [of "categories p" env
      "\<lambda>x. if x = Undefined then Null else json_roundtrip x", OF this]
  show ?thesis
    by (auto simp: imported_cat_def exported_categories)
qed

lemma import_exported:
  assumes inc: "\<forall>r \<in> set (income p). typed_row r"
    and exps: "\<forall>e \<in> set (expenses p). typed_row e \<and> nonblank (category e)"
    and cats: "\<forall>c \<in> set (categories p). \<exists>s. ToString env c = Inr s"
  shows "\<exists>cs. import_document env uid True (Inr (json_roundtrip (exportJSON ts p)))
     = Inr (Some (map default_notes (income p), map default_notes (expenses p), cs))"
proof -
  have i: "map_rows (import_income_row env uid) 0
      (map (\<lambda>r. json_roundtrip (income_row_json r)) (income p))
      = Inr (map default_notes (income p), 0)"
    using inc by (intro map_rows_roundtrip roundtrip_income_row) simp
  have e: "map_rows (import_expense_row env uid) 0
      (map (\<lambda>r. json_roundtrip (expense_row_json r)) (expenses p))
      = Inr (map default_notes (expenses p), 0)"
    using exps by (intro map_rows_roundtrip roundtrip_expense_row) simp_all
  from imported_cat_exported [OF cats] obtain cat where
    c: "imported_cat env (json_roundtrip (exportJSON ts p)) = Inr cat" ..
  show ?thesis
    unfolding import_document_def
    by (simp add: exported_income exported_expenses exported_truthy i e c)
qed

text \<open>
  C4 (as amended). For every page whose rows have their declared types (strings for id,
  date, description and category, notes a string or absent), non-empty ids, non-empty
  expense categories and finite amounts that are not negative, and whose categories can
  be converted to strings: reading back the document that \<open>exportJSON\<close> downloads, and
  confirming the import, replaces the income and the expense rows by the same rows, in
  the same order, with the same ids, dates, descriptions, amounts and categories, and
  absent notes filled in by the empty string.
\<close>

theorem export_import_roundtrip:
  assumes inc: "\<forall>r \<in> set (income p). typed_row r"
    and exps: "\<forall>e \<in> set (expenses p). typed_row e \<and> nonblank (category e)"
    and cats: "\<forall>c \<in> set (categories p). \<exists>s. ToString env c = Inr s"
  shows "income (fst (onFilePicked env uid True
            (Loaded (Inr (json_roundtrip (exportJSON ts p)))) q))
      = map default_notes (income p) \<and>
    expenses (fst (onFilePicked env uid True
            (Loaded (Inr (json_roundtrip (exportJSON ts p)))) q))
      = map default_notes (expenses p) \<and>
    snd (onFilePicked env uid True (Loaded (Inr (json_roundtrip (exportJSON ts p)))) q)
      = [Toast ''Import successful'' success 2500] \<and>
    map row_id (map default_notes (income p)) = map row_id (income p) \<and>
    map date (map default_notes (income p)) = map date (income p) \<and>
    map amount (map default_notes (income p)) = map amount (income p) \<and>
    map row_id (map default_notes (expenses p)) = map row_id (expenses p) \<and>
    map date (map default_notes (expenses p)) = map date (expenses p) \<and>
    map amount (map default_notes (expenses p)) = map amount (expenses p) \<and>
    map category (map default_notes (expenses p)) = map category (expenses p)"
proof -
  from import_exported [OF inc exps cats, of uid ts] obtain cs where
    "import_document env uid True (Inr (json_roundtrip (exportJSON ts p)))
     = Inr (Some (map default_notes (income p), map default_notes (expenses p), cs))" ..
  then show ?thesis
    by (simp add: onFilePicked_def default_notes_def comp_def)
qed

theorem export_import_roundtrip_witness:
  "income (fst (onFilePicked example_env example_uid True
      (Loaded (Inr (json_roundtrip (exportJSON ''2024-02-01T00:00:00.000Z'' example_page))))
      example_page))
     = [\<lparr> row_id = Str ''id-a'', date = Str ''2024-01-01'', desc = Str ''Income'',
           amount = Fin 3000000, row_notes = Str [] \<rparr>] \<and>
   expenses (fst (onFilePicked example_env example_uid True
      (Loaded (Inr (json_roundtrip (exportJSON ''2024-02-01T00:00:00.000Z'' example_page))))
      example_page))
     = [\<lparr> row_id = Str ''id-b'', date = Str ''2024-01-02'', desc = Str ''Expense'',
           amount = Fin 1200000, row_notes = Str [], category = Str ''Food & Drinks'' \<rparr>]"
proof -
  have i: "\<forall>r \<in> set (income example_page). typed_row r"
    by (simp add: example_page_def typed_row_def)
  have e: "\<forall>e \<in> set (expenses example_page). typed_row e \<and> nonblank (category e)"
    by (simp add: example_page_def typed_row_def)
  have c: "\<forall>c \<in> set (categories example_page). \<exists>s. ToString example_env c = Inr s"
    by (auto simp: example_page_def)
  from export_import_roundtrip [OF i e c, of example_uid
      "''2024-02-01T00:00:00.000Z''" example_page]
  show ?thesis by (simp add: example_page_def default_notes_def js_or_def)
qed

text \<open>
  The claim as stated, for every ledger state, fails on rows that the import rewrites: a
  negative amount comes back as 0, an empty id is replaced by a generated one, an empty
  category by "Other". It fails as well on a category list that holds an object with a
  property \<open>toString\<close>: \<open>String(c)\<close> throws on it, the import is rejected, and the page that
  reads the document keeps its own rows.
\<close>

theorem export_import_counterexample:
  "income (fst (onFilePicked example_env example_uid True
      (Loaded (Inr (json_roundtrip
         (exportJSON ''2024-02-01T00:00:00.000Z'' example_loaded_page))))
      example_loaded_page))
     = [\<lparr> row_id = Str ''id-a'', date = Str ''2024-01-01'', desc = Str ''Refund'',
           amount = Fin 0, row_notes = Str [] \<rparr>,
        \<lparr> row_id = Str ''id-0'', date = Str ''2024-01-04'', desc = Str ''Income'',
           amount = Fin 100, row_notes = Str [] \<rparr>] \<and>
   expenses (fst (onFilePicked example_env example_uid True
      (Loaded (Inr (json_roundtrip
         (exportJSON ''2024-02-01T00:00:00.000Z'' example_loaded_page))))
      example_loaded_page))
     = [\<lparr> row_id = Str ''id-b'', date = Str ''2024-01-02'', desc = Str ''Expense'',
           amount = Fin 1200000, row_notes = Str [], category = Str ''Other'' \<rparr>] \<and>
   map amount (income example_loaded_page) = [Fin (- 500), Fin 100] \<and>
   map row_id (income example_loaded_page) = [Str ''id-a'', Str []] \<and>
   map category (expenses example_loaded_page) = [Str []] \<and>
   onFilePicked example_env example_uid True
      (Loaded (Inr (json_roundtrip
         (exportJSON ''2024-02-01T00:00:00.000Z''
            (example_page\<lparr> categories := [Obj [(''toString'', Num (Fin 1))]] \<rparr>)))))
      (example_page\<lparr> income := [], expenses := [] \<rparr>)
     = (example_page\<lparr> income := [], expenses := [] \<rparr>,
        [Toast ''Import failed: Cannot convert object to primitive value'' error 5000])"
  by (simp add: example_loaded_page_def example_page_def onFilePicked_def
      import_document_def exportJSON_def income_row_json_def expense_row_json_def
      import_income_row_def import_expense_row_def id_or_uid_def imported_amount_def
      imported_cat_def js_or_def Math_max_def truthy_num_def from_Set_def set_add_def
      SameValueZero_def example_env_def example_uid_def digit_char_def
      DEFAULT_CATEGORIES_def no_primitive_def)

end
